theory Spec2Isabelle
  imports Main
begin

section \<open>Strings as the program uses them\<close>

text \<open>
  Source strings are modelled as \<^typ>\<open>string\<close> over ASCII text. The case
  conversions act on the letters \<open>a\<close>..\<open>z\<close> and \<open>A\<close>..\<open>Z\<close> and leave every
  other character alone; characters outside ASCII are outside the model.
\<close>

definition lowerLetters :: string where
  "lowerLetters = ''abcdefghijklmnopqrstuvwxyz''"

definition upperLetters :: string where
  "upperLetters = ''ABCDEFGHIJKLMNOPQRSTUVWXYZ''"

definition digitChars :: string where
  "digitChars = ''0123456789''"

definition toUpperCaseChar :: "char \<Rightarrow> char" where
  "toUpperCaseChar c =
     (case map_of (zip lowerLetters upperLetters) c of Some u \<Rightarrow> u | None \<Rightarrow> c)"

definition toLowerCaseChar :: "char \<Rightarrow> char" where
  "toLowerCaseChar c =
     (case map_of (zip upperLetters lowerLetters) c of Some l \<Rightarrow> l | None \<Rightarrow> c)"

definition toUpperCase :: "string \<Rightarrow> string" where
  "toUpperCase s = map toUpperCaseChar s"

definition toLowerCase :: "string \<Rightarrow> string" where
  "toLowerCase s = map toLowerCaseChar s"

text \<open>The character class \<open>[a-zA-Z0-9]\<close> of the naming regular expressions.\<close>

definition isAlnum :: "char \<Rightarrow> bool" where
  "isAlnum c \<longleftrightarrow> c \<in> set (lowerLetters @ upperLetters @ digitChars)"

text \<open>The regular-expression dot matches every character but a line terminator.\<close>

definition isLineTerminator :: "char \<Rightarrow> bool" where
  "isLineTerminator c \<longleftrightarrow> c = CHR 0x0A \<or> c = CHR 0x0D"

text \<open>The characters \<open>String.prototype.trim\<close> strips (ASCII part).\<close>

definition isWhiteSpace :: "char \<Rightarrow> bool" where
  "isWhiteSpace c \<longleftrightarrow> c \<in> set [CHR 0x09, CHR 0x0A, CHR 0x0B, CHR 0x0C, CHR 0x0D, CHR 0x20]"

definition trim :: "string \<Rightarrow> string" where
  "trim s = rev (dropWhile isWhiteSpace (rev (dropWhile isWhiteSpace s)))"

text \<open>\<open>s.startsWith(p)\<close>\<close>

definition startsWith :: "string \<Rightarrow> string \<Rightarrow> bool" where
  "startsWith s p \<longleftrightarrow> take (length p) s = p"

text \<open>
  \<open>s.split(sep)\<close> for a one-character separator: the pieces between the
  separators, empty pieces kept, so the result is never empty.
\<close>

fun split :: "char \<Rightarrow> string \<Rightarrow> string list" where
  "split sep [] = [[]]"
| "split sep (c # s) =
     (if c = sep then [] # split sep s
      else (case split sep s of [] \<Rightarrow> [[c]] | w # ws \<Rightarrow> (c # w) # ws))"

text \<open>\<open>xs.join(sep)\<close>\<close>

fun join :: "string \<Rightarrow> string list \<Rightarrow> string" where
  "join sep [] = []"
| "join sep [x] = x"
| "join sep (x # y # ys) = x @ sep @ join sep (y # ys)"

text \<open>\<open>xs.filter(Boolean)\<close> on strings: the empty string is the only falsy one.\<close>

definition filterBoolean :: "string list \<Rightarrow> string list" where
  "filterBoolean xs = filter (\<lambda>s. s \<noteq> []) xs"

text \<open>Truthiness of the values the parser tests with \<open>!\<close>, \<open>||\<close> and \<open>&&\<close>.\<close>

definition truthyStr :: "string option \<Rightarrow> bool" where
  "truthyStr v \<longleftrightarrow> (case v of None \<Rightarrow> False | Some s \<Rightarrow> s \<noteq> [])"

definition truthyBool :: "bool option \<Rightarrow> bool" where
  "truthyBool v \<longleftrightarrow> (case v of None \<Rightarrow> False | Some b \<Rightarrow> b)"

text \<open>\<open>v || d\<close> on an optional string.\<close>

definition orElse :: "string option \<Rightarrow> string \<Rightarrow> string" where
  "orElse v d = (case v of None \<Rightarrow> d | Some s \<Rightarrow> if s = [] then d else s)"

text \<open>\<open>str.charAt(0).toUpperCase() + str.slice(1)\<close>\<close>

definition capitalizeFirst :: "string \<Rightarrow> string" where
  "capitalizeFirst str = (case str of [] \<Rightarrow> [] | c # cs \<Rightarrow> toUpperCaseChar c # cs)"

section \<open>The raw document\<close>

text \<open>
  The parser reads the result of \<open>JSON.parse\<close> as \<open>any\<close>. The document is
  modelled at the shape the parser reads, every field optional: \<open>None\<close> is an
  absent field, or one holding \<open>null\<close>; a string field may be empty and an
  array field may be empty, and both are told apart from an absent one, as
  the truthiness tests of the parser tell them apart. A value of another JSON
  type in one of these positions (a number where an object is read, and so
  on) is outside the model. An object whose keys the parser enumerates is an
  association list in the order \<open>Object.entries\<close> yields, looked up by its
  first matching key. Values the parser copies without looking inside are
  \<^emph>\<open>json\<close>.
\<close>

datatype json =
    JNull
  | JBool bool
  | JNum int
  | JStr string
  | JArr "json list"
  | JObj "(string \<times> json) list"

datatype schema = Schema
  (s_ref: "string option")
  (s_type: "string option")
  (s_items: "schema option")
  (s_properties: "(string \<times> schema) list option")
  (s_required: "string list option")
  (s_description: "string option")
  (s_example: "json option")
  (s_enum: "json list option")
  (s_format: "string option")
  (s_nullable: "bool option")

record mediaType =
  mt_schema :: "schema option"
  mt_example :: "json option"

record parameter =
  p_name :: "string option"
  p_in :: "string option"
  p_required :: "bool option"
  p_schema :: "schema option"
  p_description :: "string option"

record requestBody =
  rb_required :: "bool option"
  rb_content :: "(string \<times> mediaType) list option"

record response =
  r_description :: "string option"
  r_content :: "(string \<times> mediaType) list option"

text \<open>
  A security requirement is an object from scheme name to scopes; only its
  keys are read. An element of the \<open>security\<close> array may be \<open>null\<close>.
\<close>

type_synonym securityRequirement = "(string \<times> string list) list"

record operation =
  o_operationId :: "string option"
  o_summary :: "string option"
  o_description :: "string option"
  o_tags :: "string list option"
  o_parameters :: "parameter list option"
  o_requestBody :: "requestBody option"
  o_responses :: "(string \<times> response) list option"
  o_security :: "securityRequirement option list option"

text \<open>A path item: only the entries under the seven verbs are read.\<close>

type_synonym pathItem = "(string \<times> operation) list"

record info =
  i_title :: "string option"
  i_version :: "string option"
  i_description :: "string option"

record server =
  sv_url :: "string option"

record securityScheme =
  ss_type :: "string option"
  ss_scheme :: "string option"

record components =
  c_schemas :: "(string \<times> schema) list option"
  c_securitySchemes :: "(string \<times> securityScheme) list option"

record document =
  d_openapi :: "string option"
  d_swagger :: "string option"
  d_info :: "info option"
  d_servers :: "server list option"
  d_host :: "string option"
  d_schemes :: "string list option"
  d_basePath :: "string option"
  d_paths :: "(string \<times> pathItem) list option"
  d_components :: "components option"

section \<open>The canonical model (types.ts)\<close>

record ParsedParameter =
  pp_name :: "string option"
  pp_in :: string
  pp_required :: bool
  pp_type :: string
  pp_description :: "string option"
  pp_schema :: "schema option"

record ParsedRequestBody =
  prb_required :: bool
  prb_contentTypes :: "string list"
  prb_schema :: "schema option"
  prb_example :: "json option"

record ParsedResponse =
  pr_statusCode :: string
  pr_description :: string
  pr_schema :: "schema option"
  pr_example :: "json option"

record ParsedProperty =
  prop_name :: string
  prop_type :: string
  prop_description :: "string option"
  prop_required :: bool
  prop_format :: "string option"
  prop_items :: "schema option"
  prop_enum :: "json list option"
  prop_example :: "json option"
  prop_ref :: "string option"
  prop_nullable :: "bool option"

record ParsedSchema =
  ps_name :: string
  ps_type :: string
  ps_properties :: "ParsedProperty list"
  ps_required :: "string list"
  ps_description :: "string option"
  ps_example :: "json option"
  ps_enum :: "json list option"
  ps_format :: "string option"
  ps_ref :: "string option"

record ParsedEndpoint =
  ep_path :: string
  ep_method :: string
  ep_operationId :: string
  ep_summary :: "string option"
  ep_description :: "string option"
  ep_tags :: "string list"
  ep_parameters :: "ParsedParameter list"
  ep_requestBody :: "ParsedRequestBody option"
  ep_responses :: "ParsedResponse list"
  ep_security :: "string list"

record ParsedAPISpec =
  spec_title :: string
  spec_version :: string
  spec_description :: "string option"
  spec_baseUrl :: "string option"
  spec_endpoints :: "ParsedEndpoint list"
  spec_schemas :: "ParsedSchema list"
  spec_securitySchemes :: "(string \<times> securityScheme) list"

section \<open>The specification normalizer (parser.ts)\<close>

datatype error =
    InvalidSpecification
  | InputFileNotFound
  | InvalidLanguage

text \<open>
  The constructor, after the file is read and parsed as JSON: it refuses a
  document in which neither marker is truthy.
\<close>

definition OpenAPIParser :: "document \<Rightarrow> error + document" where
  "OpenAPIParser parsed =
     (if \<not> truthyStr (d_openapi parsed) \<and> \<not> truthyStr (d_swagger parsed)
      then Inl InvalidSpecification
      else Inr parsed)"

text \<open>\<open>getBaseUrl\<close>: first server, else the legacy host fields, else a placeholder.\<close>

definition getBaseUrl :: "document \<Rightarrow> string option" where
  "getBaseUrl spec =
     (case d_servers spec of
        Some (sv # svs) \<Rightarrow> sv_url sv
      | _ \<Rightarrow>
        (if truthyStr (d_host spec) then
           (let scheme = orElse (case d_schemes spec of Some (x # xs) \<Rightarrow> Some x | _ \<Rightarrow> None)
                                ''https'';
                basePath = orElse (d_basePath spec) ''''
            in Some (scheme @ ''://'' @ the (d_host spec) @ basePath))
         else Some ''https://api.example.com''))"

text \<open>\<open>getSchemaType\<close>: the normalized type label of a schema node.\<close>

fun getSchemaType :: "schema option \<Rightarrow> string" where
  "getSchemaType None = ''any''"
| "getSchemaType (Some (Schema rf ty its props req descr ex en fmt nul)) =
     (if truthyStr rf then last (split CHR ''/'' (the rf))
      else if ty = Some ''array'' \<and> its \<noteq> None then getSchemaType its @ ''[]''
      else orElse ty ''any'')"

text \<open>\<open>generateOperationId\<close>\<close>

definition generateOperationId :: "string \<Rightarrow> string \<Rightarrow> string" where
  "generateOperationId method path =
     (let parts = filterBoolean (split CHR ''/'' path);
          resource = (case parts of [] \<Rightarrow> ''default'' | p # ps \<Rightarrow> p)
      in toLowerCase method @ capitalizeFirst resource)"

definition parseParameters :: "parameter list option \<Rightarrow> ParsedParameter list" where
  "parseParameters parameters =
     (case parameters of
        None \<Rightarrow> []
      | Some ps \<Rightarrow>
          map (\<lambda>param.
            \<lparr> pp_name = p_name param,
              pp_in = orElse (p_in param) ''query'',
              pp_required = truthyBool (p_required param),
              pp_type = getSchemaType (p_schema param),
              pp_description = p_description param,
              pp_schema = p_schema param \<rparr>) ps)"

text \<open>
  \<open>content[contentTypes[0]]?.schema\<close>: the first declared content type
  supplies schema and example; with no content type the lookup is undefined.
\<close>

definition firstContent :: "(string \<times> mediaType) list \<Rightarrow> mediaType option" where
  "firstContent content = (case content of [] \<Rightarrow> None | (k, v) # rest \<Rightarrow> Some v)"

definition parseRequestBody :: "requestBody option \<Rightarrow> ParsedRequestBody option" where
  "parseRequestBody requestBody =
     (case requestBody of
        None \<Rightarrow> None
      | Some rb \<Rightarrow>
          (let content = (case rb_content rb of None \<Rightarrow> [] | Some c \<Rightarrow> c);
               contentTypes = map fst content
           in Some \<lparr> prb_required = truthyBool (rb_required rb),
                     prb_contentTypes = contentTypes,
                     prb_schema = Option.bind (firstContent content) mt_schema,
                     prb_example = Option.bind (firstContent content) mt_example \<rparr>))"

definition parseResponses :: "(string \<times> response) list option \<Rightarrow> ParsedResponse list" where
  "parseResponses responses =
     (case responses of
        None \<Rightarrow> []
      | Some rs \<Rightarrow>
          map (\<lambda>(statusCode, response).
            (let content = (case r_content response of None \<Rightarrow> [] | Some c \<Rightarrow> c)
             in \<lparr> pr_statusCode = statusCode,
                  pr_description = orElse (r_description response) '''',
                  pr_schema = Option.bind (firstContent content) mt_schema,
                  pr_example = Option.bind (firstContent content) mt_example \<rparr>)) rs)"

text \<open>
  \<open>operation.security?.map(s => Object.keys(s || {})).flat() || []\<close>
\<close>

definition parseSecurity :: "securityRequirement option list option \<Rightarrow> string list" where
  "parseSecurity security =
     (case security of
        None \<Rightarrow> []
      | Some reqs \<Rightarrow>
          concat (map (\<lambda>s. case s of None \<Rightarrow> [] | Some kvs \<Rightarrow> map fst kvs) reqs))"

text \<open>
  \<open>parseEndpoint\<close>. An array is truthy even when empty, so only an absent
  \<open>tags\<close> field is replaced by \<open>['default']\<close>.
\<close>

definition parseEndpoint :: "string \<Rightarrow> string \<Rightarrow> operation \<Rightarrow> ParsedEndpoint" where
  "parseEndpoint path method operation =
     \<lparr> ep_path = path,
       ep_method = method,
       ep_operationId =
         (if truthyStr (o_operationId operation) then the (o_operationId operation)
          else generateOperationId method path),
       ep_summary = o_summary operation,
       ep_description = o_description operation,
       ep_tags = (case o_tags operation of None \<Rightarrow> [''default''] | Some ts \<Rightarrow> ts),
       ep_parameters = parseParameters (o_parameters operation),
       ep_requestBody = parseRequestBody (o_requestBody operation),
       ep_responses = parseResponses (o_responses operation),
       ep_security = parseSecurity (o_security operation) \<rparr>"

definition methods :: "string list" where
  "methods = [''get'', ''post'', ''put'', ''delete'', ''patch'', ''options'', ''head'']"

text \<open>The inner loop of \<open>parseEndpoints\<close>, over the verbs of one path item.\<close>

fun parseMethods :: "string \<Rightarrow> pathItem \<Rightarrow> string list \<Rightarrow> ParsedEndpoint list" where
  "parseMethods pathKey pathItem [] = []"
| "parseMethods pathKey pathItem (method # rest) =
     (case map_of pathItem method of
        None \<Rightarrow> parseMethods pathKey pathItem rest
      | Some operation \<Rightarrow>
          parseEndpoint pathKey (toUpperCase method) operation
            # parseMethods pathKey pathItem rest)"

text \<open>The outer loop, over the declared paths.\<close>

fun parsePaths :: "(string \<times> pathItem) list \<Rightarrow> ParsedEndpoint list" where
  "parsePaths [] = []"
| "parsePaths ((pathKey, pathItem) # rest) =
     parseMethods pathKey pathItem methods @ parsePaths rest"

definition parseEndpoints :: "document \<Rightarrow> ParsedEndpoint list" where
  "parseEndpoints spec = (case d_paths spec of None \<Rightarrow> [] | Some ps \<Rightarrow> parsePaths ps)"

text \<open>\<open>parseProperty\<close>: the required flag is stored as \<open>false\<close>, whatever the schema says.\<close>

definition parseProperty :: "string \<Rightarrow> schema \<Rightarrow> ParsedProperty" where
  "parseProperty name sch =
     \<lparr> prop_name = name,
       prop_type = getSchemaType (Some sch),
       prop_description = s_description sch,
       prop_required = False,
       prop_format = s_format sch,
       prop_items = s_items sch,
       prop_enum = s_enum sch,
       prop_example = s_example sch,
       prop_ref = s_ref sch,
       prop_nullable = s_nullable sch \<rparr>"

definition parseSchema :: "string \<times> schema \<Rightarrow> ParsedSchema" where
  "parseSchema = (\<lambda>(name, sch).
     \<lparr> ps_name = name,
       ps_type = orElse (s_type sch) ''object'',
       ps_properties =
         (case s_properties sch of
            None \<Rightarrow> []
          | Some props \<Rightarrow> map (\<lambda>(propName, prop). parseProperty propName prop) props),
       ps_required = (case s_required sch of None \<Rightarrow> [] | Some r \<Rightarrow> r),
       ps_description = s_description sch,
       ps_example = s_example sch,
       ps_enum = s_enum sch,
       ps_format = s_format sch,
       ps_ref = s_ref sch \<rparr>)"

definition parseSchemas :: "document \<Rightarrow> ParsedSchema list" where
  "parseSchemas spec =
     (case Option.bind (d_components spec) c_schemas of
        None \<Rightarrow> []
      | Some schemaDefs \<Rightarrow> map parseSchema schemaDefs)"

definition parseSecuritySchemes :: "document \<Rightarrow> (string \<times> securityScheme) list" where
  "parseSecuritySchemes spec =
     (case Option.bind (d_components spec) c_securitySchemes of
        None \<Rightarrow> []
      | Some s \<Rightarrow> s)"

definition parse :: "document \<Rightarrow> ParsedAPISpec" where
  "parse spec =
     \<lparr> spec_title = orElse (Option.bind (d_info spec) i_title) ''API'',
       spec_version = orElse (Option.bind (d_info spec) i_version) ''1.0.0'',
       spec_description = Option.bind (d_info spec) i_description,
       spec_baseUrl = getBaseUrl spec,
       spec_endpoints = parseEndpoints spec,
       spec_schemas = parseSchemas spec,
       spec_securitySchemes = parseSecuritySchemes spec \<rparr>"

text \<open>Constructing the parser on a document and calling \<open>parse()\<close> on it.\<close>

definition parseDocument :: "document \<Rightarrow> error + ParsedAPISpec" where
  "parseDocument doc =
     (case OpenAPIParser doc of Inl e \<Rightarrow> Inl e | Inr spec \<Rightarrow> Inr (parse spec))"

section \<open>The generation context (engine.ts)\<close>

record GeneratorConfig =
  inputFile :: string
  outputDir :: string
  language :: string
  clientName :: string
  includeExamples :: bool
  includeErrorHandling :: bool
  watchMode :: bool

text \<open>
  \<open>endpointsByTag\<close> is a \<open>Map\<close>, which enumerates in insertion order: an
  association list with one entry per key, in order of first insertion.
\<close>

type_synonym tagMap = "(string \<times> ParsedEndpoint list) list"

record GeneratorContext =
  ctx_config :: GeneratorConfig
  ctx_spec :: ParsedAPISpec
  ctx_endpointsByTag :: tagMap

text \<open>
  One pass of the inner loop body: create the bucket of \<open>tag\<close> when the map
  lacks it, then push the endpoint at the end of that bucket.
\<close>

fun pushToTag :: "tagMap \<Rightarrow> string \<Rightarrow> ParsedEndpoint \<Rightarrow> tagMap" where
  "pushToTag [] tag endpoint = [(tag, [endpoint])]"
| "pushToTag ((k, b) # m) tag endpoint =
     (if k = tag then (k, b @ [endpoint]) # m
      else (k, b) # pushToTag m tag endpoint)"

text \<open>The inner loop, over the tags of one endpoint.\<close>

fun pushToTags :: "tagMap \<Rightarrow> string list \<Rightarrow> ParsedEndpoint \<Rightarrow> tagMap" where
  "pushToTags m [] endpoint = m"
| "pushToTags m (tag # tags) endpoint = pushToTags (pushToTag m tag endpoint) tags endpoint"

text \<open>The outer loop, over the endpoints of the spec.\<close>

fun groupByTag :: "tagMap \<Rightarrow> ParsedEndpoint list \<Rightarrow> tagMap" where
  "groupByTag m [] = m"
| "groupByTag m (endpoint # endpoints) =
     groupByTag (pushToTags m (ep_tags endpoint) endpoint) endpoints"

definition buildContext :: "GeneratorConfig \<Rightarrow> ParsedAPISpec \<Rightarrow> GeneratorContext" where
  "buildContext config spec =
     \<lparr> ctx_config = config,
       ctx_spec = spec,
       ctx_endpointsByTag = groupByTag [] (spec_endpoints spec) \<rparr>"

text \<open>\<open>endpointsByTag.get(tag)\<close>, with no bucket read as the empty one.\<close>

definition bucket :: "tagMap \<Rightarrow> string \<Rightarrow> ParsedEndpoint list" where
  "bucket m tag = (case map_of m tag of None \<Rightarrow> [] | Some b \<Rightarrow> b)"

text \<open>
  A property read on an object literal also finds what \<open>Object.prototype\<close>
  supplies. Of its keys only these two are in lower case; the value is given
  as the text it renders to when it is interpolated into the output.
\<close>

definition objectPrototype :: "string \<Rightarrow> string option" where
  "objectPrototype key =
     map_of [(''constructor'', ''function Object() { [native code] }''),
             (''__proto__'', ''[object Object]'')] key"

text \<open>\<open>BaseGenerator.getTypeName\<close>\<close>

definition getTypeName :: "string \<Rightarrow> string" where
  "getTypeName schemaType =
     (let typeMap =
        [(''string'', ''string''),
         (''integer'', ''number''),
         (''number'', ''number''),
         (''boolean'', ''boolean''),
         (''array'', ''any[]''),
         (''object'', ''any''),
         (''file'', ''Blob''),
         (''date'', ''string''),
         (''date-time'', ''string''),
         (''email'', ''string''),
         (''uri'', ''string'')]
      in case map_of typeMap (toLowerCase schemaType) of
           Some t \<Rightarrow> t
         | None \<Rightarrow>
             (case objectPrototype (toLowerCase schemaType) of
                Some t \<Rightarrow> t
              | None \<Rightarrow> schemaType))"

section \<open>The TypeScript generator\<close>

subsection \<open>Naming utilities\<close>

text \<open>\<open>str.replace(/[-_](.)/g, (_, c) => c.toUpperCase())\<close>\<close>

fun replaceSeparators :: "string \<Rightarrow> string" where
  "replaceSeparators [] = []"
| "replaceSeparators [x] = [x]"
| "replaceSeparators (x # y # s) =
     (if (x = CHR ''-'' \<or> x = CHR ''_'') \<and> \<not> isLineTerminator y
      then toUpperCaseChar y # replaceSeparators s
      else x # replaceSeparators (y # s))"

text \<open>\<open>str.replace(/^(.)/, (_, c) => f(c))\<close>\<close>

definition replaceFirstChar :: "(char \<Rightarrow> char) \<Rightarrow> string \<Rightarrow> string" where
  "replaceFirstChar f str =
     (case str of
        [] \<Rightarrow> []
      | c # cs \<Rightarrow> if isLineTerminator c then c # cs else f c # cs)"

text \<open>
  A run of non-alphanumeric characters that reaches the end of the string:
  the pattern \<open>[^a-zA-Z0-9]+(.)\<close> backtracks, so the run gives up its last
  character that the dot can match, and needs one character left for itself.
  The argument \<open>s\<close> is the run without its first character \<open>x\<close>.
\<close>

definition runAtEnd :: "char \<Rightarrow> string \<Rightarrow> string" where
  "runAtEnd x s =
     (case dropWhile isLineTerminator (rev s) of
        [] \<Rightarrow> x # s
      | c # before \<Rightarrow> toUpperCaseChar c # rev (takeWhile isLineTerminator (rev s)))"

text \<open>\<open>str.replace(/[^a-zA-Z0-9]+(.)/g, (_, c) => c.toUpperCase())\<close>\<close>

function replaceNonAlnumRuns :: "string \<Rightarrow> string" where
  "replaceNonAlnumRuns [] = []"
| "replaceNonAlnumRuns (x # s) =
     (if isAlnum x then x # replaceNonAlnumRuns s
      else (case dropWhile (\<lambda>c. \<not> isAlnum c) s of
              [] \<Rightarrow> runAtEnd x s
            | y # t \<Rightarrow> toUpperCaseChar y # replaceNonAlnumRuns t))"
  by pat_completeness auto
termination
proof (relation "measure length")
  show "wf (measure length)" by simp
next
  fix x :: char and s :: string
  show "(s, x # s) \<in> measure length" by simp
next
  fix x :: char and s :: string and y :: char and t :: string
  assume "dropWhile (\<lambda>c. \<not> isAlnum c) s = y # t"
  then have "length (y # t) \<le> length s"
    by (metis length_dropWhile_le)
  then show "(t, x # s) \<in> measure length" by simp
qed

definition toPascalCase :: "string \<Rightarrow> string" where
  "toPascalCase str =
     replaceNonAlnumRuns (replaceFirstChar toUpperCaseChar (replaceSeparators str))"

definition toCamelCase :: "string \<Rightarrow> string" where
  "toCamelCase str =
     replaceNonAlnumRuns (replaceFirstChar toLowerCaseChar (replaceSeparators str))"

text \<open>A template literal renders an absent value as the text \<open>undefined\<close>.\<close>

definition interpolate :: "string option \<Rightarrow> string" where
  "interpolate v = (case v of None \<Rightarrow> ''undefined'' | Some s \<Rightarrow> s)"

subsection \<open>Return type and type mapping\<close>

text \<open>The last segment of a reference string.\<close>

definition refName :: "string \<Rightarrow> string" where
  "refName r = last (split CHR ''/'' r)"

definition getReturnType :: "ParsedEndpoint \<Rightarrow> string" where
  "getReturnType endpoint =
     (case find (\<lambda>r. startsWith (pr_statusCode r) ''2'') (ep_responses endpoint) of
        None \<Rightarrow> ''any''
      | Some successResponse \<Rightarrow>
          (case pr_schema successResponse of
             None \<Rightarrow> ''any''
           | Some sch \<Rightarrow>
               if truthyStr (s_ref sch) then refName (the (s_ref sch))
               else if s_type sch = Some ''array'' then
                 (case s_items sch of
                    None \<Rightarrow> ''any[]''
                  | Some items \<Rightarrow>
                      if truthyStr (s_ref items) then refName (the (s_ref items)) @ ''[]''
                      else ''any[]'')
               else ''any''))"

text \<open>The table of \<open>mapType\<close>, as written.\<close>

definition typeMap :: "(string \<times> string) list" where
  "typeMap =
     [(''string'', ''string''),
      (''integer'', ''number''),
      (''number'', ''number''),
      (''boolean'', ''boolean''),
      (''array'', ''any[]''),
      (''object'', ''Record<string, any>''),
      (''file'', ''Blob''),
      (''date'', ''string''),
      (''date-time'', ''string'')]"

definition mapType :: "string \<Rightarrow> bool option \<Rightarrow> string" where
  "mapType type nullable =
     (let tsType =
        (case map_of typeMap (toLowerCase type) of
           Some t \<Rightarrow> t
         | None \<Rightarrow>
             (case objectPrototype (toLowerCase type) of
                Some t \<Rightarrow> t
              | None \<Rightarrow> type))
      in if truthyBool nullable then tsType @ '' | null'' else tsType)"

subsection \<open>The types artifact\<close>

text \<open>\<open>schema.required.includes(prop.name)\<close>\<close>

definition isRequired :: "ParsedSchema \<Rightarrow> ParsedProperty \<Rightarrow> bool" where
  "isRequired sch prop \<longleftrightarrow> prop_name prop \<in> set (ps_required sch)"

text \<open>The text emitted for one property of one schema.\<close>

definition propertyLine :: "ParsedSchema \<Rightarrow> ParsedProperty \<Rightarrow> string" where
  "propertyLine sch prop =
     (let tsType = mapType (prop_type prop) (prop_nullable prop);
          required = isRequired sch prop
      in ''  /** '' @ orElse (prop_description prop) (prop_name prop) @ '' */\<newline>  ''
         @ prop_name prop @ (if required then '''' else ''?'') @ '': '' @ tsType @ '';'')"

text \<open>The text emitted for one schema.\<close>

definition interfaceText :: "ParsedSchema \<Rightarrow> string" where
  "interfaceText sch =
     (let properties = join ''\<newline>'' (map (propertyLine sch) (ps_properties sch))
      in ''/** '' @ orElse (ps_description sch) (ps_name sch) @ '' */\<newline>export interface ''
         @ ps_name sch @ '' {\<newline>'' @ properties @ ''\<newline>}'')"

text \<open>
  \<open>generateSchemas\<close>: the content written to \<open>types.ts\<close>, or \<open>None\<close> when
  there is no schema and the file is not written.
\<close>

definition generateSchemas :: "ParsedSchema list \<Rightarrow> string option" where
  "generateSchemas schemas =
     (if schemas = [] then None
      else Some (join ''\<newline>\<newline>'' (map interfaceText schemas)))"

subsection \<open>The client artifact\<close>

text \<open>
  The client source is a fixed Handlebars template expanded over a data
  object. The expansion belongs to the template library; the model stops at
  the data object that \<open>generateClientCode\<close> hands to the template.
\<close>

definition formatDescription :: "string option \<Rightarrow> string" where
  "formatDescription description =
     (if \<not> truthyStr description then ''''
      else join '' '' (filterBoolean (map trim (split CHR 0x0A (the description)))))"

definition generateExample :: "ParsedEndpoint \<Rightarrow> GeneratorContext \<Rightarrow> string" where
  "generateExample endpoint context =
     (let clientName = clientName (ctx_config context);
          methodName = toCamelCase (ep_operationId endpoint)
      in ''// Create client\<newline>''
         @ ''const client = new '' @ clientName @ ''({ baseURL: ''
         @ [CHR 0x27] @ interpolate (spec_baseUrl (ctx_spec context)) @ [CHR 0x27]
         @ '' });\<newline>\<newline>''
         @ ''// Call '' @ orElse (ep_summary endpoint) (ep_operationId endpoint) @ ''\<newline>''
         @ ''const result = await client.'' @ methodName @ ''();\<newline>''
         @ ''console.log(result);'')"

record FormattedEndpoint =
  fe_methodName :: string
  fe_path :: string
  fe_method :: string
  fe_summary :: string
  fe_description :: string
  fe_parameters :: "ParsedParameter list"
  fe_requestBody :: "ParsedRequestBody option"
  fe_returnType :: string
  fe_example :: string

definition formatEndpoint :: "ParsedEndpoint \<Rightarrow> GeneratorContext \<Rightarrow> FormattedEndpoint" where
  "formatEndpoint endpoint context =
     \<lparr> fe_methodName = toCamelCase (ep_operationId endpoint),
       fe_path = ep_path endpoint,
       fe_method = ep_method endpoint,
       fe_summary = orElse (ep_summary endpoint) (ep_operationId endpoint),
       fe_description = formatDescription (ep_description endpoint),
       fe_parameters = ep_parameters endpoint,
       fe_requestBody = ep_requestBody endpoint,
       fe_returnType = getReturnType endpoint,
       fe_example = generateExample endpoint context \<rparr>"

record FormattedProperty =
  fp_name :: string
  fp_type :: string
  fp_required :: bool
  fp_description :: string

record FormattedSchema =
  fs_name :: string
  fs_description :: string
  fs_properties :: "FormattedProperty list"

definition formatSchema :: "ParsedSchema \<Rightarrow> FormattedSchema" where
  "formatSchema sch =
     \<lparr> fs_name = ps_name sch,
       fs_description = orElse (ps_description sch) (ps_name sch),
       fs_properties =
         map (\<lambda>prop.
           \<lparr> fp_name = prop_name prop,
             fp_type = mapType (prop_type prop) (prop_nullable prop),
             fp_required = isRequired sch prop,
             fp_description = orElse (prop_description prop) (prop_name prop) \<rparr>)
           (ps_properties sch) \<rparr>"

text \<open>One sub-client: the template renders one method per entry of \<open>tg_endpoints\<close>.\<close>

record TagGroup =
  tg_description :: string
  tg_className :: string
  tg_propertyName :: string
  tg_endpoints :: "FormattedEndpoint list"
  tg_paramTypeName :: string

record ClientTemplateData =
  cd_clientName :: string
  cd_baseUrl :: "string option"
  cd_version :: string
  cd_description :: "string option"
  cd_schemas :: "FormattedSchema list"
  cd_endpointsByTag :: "TagGroup list"
  cd_includeErrorHandling :: bool
  cd_includeExamples :: bool
  cd_hasApiKey :: bool
  cd_hasBearer :: bool

definition endpointsGrouped :: "GeneratorContext \<Rightarrow> TagGroup list" where
  "endpointsGrouped context =
     map (\<lambda>(tag, endpoints).
       \<lparr> tg_description = capitalizeFirst tag,
         tg_className = toPascalCase tag @ ''Client'',
         tg_propertyName = toCamelCase tag,
         tg_endpoints = map (\<lambda>ep. formatEndpoint ep context) endpoints,
         tg_paramTypeName = toPascalCase tag @ ''Params'' \<rparr>)
       (ctx_endpointsByTag context)"

definition generateClientCode :: "GeneratorContext \<Rightarrow> ClientTemplateData" where
  "generateClientCode context =
     (let config = ctx_config context;
          spec = ctx_spec context;
          schemes = spec_securitySchemes spec;
          hasApiKey =
            list_ex (\<lambda>key. Option.bind (map_of schemes key) ss_type = Some ''apiKey'')
              (map fst schemes);
          hasBearer =
            list_ex (\<lambda>key. Option.bind (map_of schemes key) ss_type = Some ''http''
                          \<and> Option.bind (map_of schemes key) ss_scheme = Some ''bearer'')
              (map fst schemes)
      in \<lparr> cd_clientName = clientName config,
           cd_baseUrl = spec_baseUrl spec,
           cd_version = spec_version spec,
           cd_description = spec_description spec,
           cd_schemas = map formatSchema (spec_schemas spec),
           cd_endpointsByTag = endpointsGrouped context,
           cd_includeErrorHandling = includeErrorHandling config,
           cd_includeExamples = includeExamples config,
           cd_hasApiKey = hasApiKey,
           cd_hasBearer = hasBearer \<rparr>)"

subsection \<open>The error taxonomy artifact\<close>

text \<open>The lines of \<open>errors.ts\<close>, as \<open>generateErrorsFile\<close> writes them.\<close>

definition errorsContent :: "string list" where
  "errorsContent =
     [''import { AxiosError } from 'axios';'',
      '''',
      ''export class ApiError extends Error {'',
      ''  constructor('',
      ''    message: string,'',
      ''    public statusCode?: number,'',
      ''    public response?: any'',
      ''  ) {'',
      ''    super(message);'',
      ''    this.name = 'ApiError';'',
      ''  }'',
      ''}'',
      '''',
      ''export class ApiRequestError extends ApiError {'',
      ''  constructor(message: string, public request: any) {'',
      ''    super(message);'',
      ''    this.name = 'ApiRequestError';'',
      ''  }'',
      ''}'',
      '''',
      ''export class ApiResponseError extends ApiError {'',
      ''  constructor(message: string, statusCode: number, response: any) {'',
      ''    super(message, statusCode, response);'',
      ''    this.name = 'ApiResponseError';'',
      ''  }'',
      ''}'',
      '''',
      ''export class NetworkError extends ApiError {'',
      ''  constructor(message: string, public originalError?: Error) {'',
      ''    super(message);'',
      ''    this.name = 'NetworkError';'',
      ''  }'',
      ''}'',
      '''',
      ''export class TimeoutError extends ApiError {'',
      ''  constructor(message: string = 'Request timed out') {'',
      ''    super(message);'',
      ''    this.name = 'TimeoutError';'',
      ''  }'',
      ''}'',
      '''',
      ''export type ErrorType = ApiError | ApiRequestError | ApiResponseError | NetworkError | TimeoutError;'',
      '''',
      ''export function isApiError(error: any): error is ApiError {'',
      ''  return error instanceof ApiError;'',
      ''}'',
      '''',
      ''export function isRetryableError(error: any): boolean {'',
      ''  if (error instanceof NetworkError || error instanceof TimeoutError) {'',
      ''    return true;'',
      ''  }'',
      ''  if (error instanceof ApiResponseError && error.statusCode && error.statusCode >= 500) {'',
      ''    return true;'',
      ''  }'',
      ''  return false;'',
      ''}'']"

text \<open>
  The values the emitted predicates are applied to: an instance of one of the
  five emitted classes (each inherits the optional, public \<open>statusCode\<close> of
  \<open>ApiError\<close>), or any other value. Status codes are integers.
\<close>

datatype errorClass =
    ApiError
  | ApiRequestError
  | ApiResponseError
  | NetworkError
  | TimeoutError

datatype thrown =
    Instance errorClass "int option"
  | OtherValue

text \<open>\<open>error instanceof C\<close>: the four subclasses extend \<open>ApiError\<close> directly.\<close>

fun instanceof :: "thrown \<Rightarrow> errorClass \<Rightarrow> bool" where
  "instanceof OtherValue c = False"
| "instanceof (Instance k st) c = (k = c \<or> c = ApiError)"

fun statusCode :: "thrown \<Rightarrow> int option" where
  "statusCode OtherValue = None"
| "statusCode (Instance k st) = st"

text \<open>A number is truthy unless it is zero.\<close>

definition truthyNum :: "int option \<Rightarrow> bool" where
  "truthyNum v \<longleftrightarrow> (case v of None \<Rightarrow> False | Some n \<Rightarrow> n \<noteq> 0)"

text \<open>The emitted \<open>isRetryableError\<close>, statement by statement.\<close>

definition isRetryableError :: "thrown \<Rightarrow> bool" where
  "isRetryableError err =
     (if instanceof err NetworkError \<or> instanceof err TimeoutError then True
      else if instanceof err ApiResponseError \<and> truthyNum (statusCode err)
              \<and> the (statusCode err) \<ge> 500 then True
      else False)"

subsection \<open>The parameter bundles, the examples and the manifest\<close>

definition paramLines :: "ParsedParameter \<Rightarrow> string" where
  "paramLines param =
     (let tsType = mapType (pp_type param) None
      in ''  /** ''
         @ (if truthyStr (pp_description param) then the (pp_description param)
            else interpolate (pp_name param))
         @ '' */\<newline>''
         @ ''  '' @ interpolate (pp_name param) @ (if pp_required param then '''' else ''?'')
         @ '': '' @ tsType @ '';\<newline>'')"

definition generateTypesFile :: "GeneratorContext \<Rightarrow> string" where
  "generateTypesFile context =
     (let spec = ctx_spec context
      in ''// Auto-generated types for '' @ spec_title spec @ ''\<newline>// Version: ''
         @ spec_version spec @ ''\<newline>\<newline>''
         @ concat (map (\<lambda>(tag, endpoints).
             ''export interface '' @ toPascalCase tag @ ''Params'' @ '' {\<newline>''
             @ concat (map (\<lambda>ep. concat (map paramLines (ep_parameters ep))) endpoints)
             @ ''}\<newline>\<newline>'')
             (ctx_endpointsByTag context)))"

definition generateExamples :: "GeneratorContext \<Rightarrow> string" where
  "generateExamples context =
     (let spec = ctx_spec context;
          name = clientName (ctx_config context)
      in ''// Auto-generated examples for '' @ spec_title spec @ ''\<newline>// Version: ''
         @ spec_version spec @ ''\<newline>\<newline>''
         @ ''import { '' @ name @ '' } from './index';\<newline>\<newline>''
         @ ''// Create client instance\<newline>''
         @ ''const client = new '' @ name @ ''({\<newline>''
         @ ''  baseURL: '' @ [CHR 0x27] @ interpolate (spec_baseUrl spec) @ [CHR 0x27]
         @ '',\<newline>''
         @ ''  timeout: 30000,\<newline>''
         @ ''});\<newline>\<newline>''
         @ concat (map (\<lambda>(tag, endpoints).
             ''// '' @ capitalizeFirst tag @ '' endpoints\<newline>''
             @ concat (map (\<lambda>ep.
                 ''// '' @ orElse (ep_summary ep) (ep_operationId ep) @ ''\<newline>''
                 @ ''// '' @ ep_method ep @ '' '' @ ep_path ep @ ''\<newline>''
                 @ generateExample ep context @ ''\<newline>\<newline>'') endpoints))
             (ctx_endpointsByTag context)))"

text \<open>The two manifest objects, before \<open>JSON.stringify\<close>.\<close>

definition packageJson :: "GeneratorConfig \<Rightarrow> json" where
  "packageJson config =
     JObj [(''name'', JStr (toLowerCase (clientName config) @ ''-client'')),
           (''version'', JStr ''1.0.0''),
           (''description'', JStr (''Auto-generated TypeScript client for '' @ clientName config)),
           (''main'', JStr ''dist/index.js''),
           (''types'', JStr ''dist/index.d.ts''),
           (''scripts'', JObj [(''build'', JStr ''tsc''), (''prepare'', JStr ''npm run build'')]),
           (''dependencies'', JObj [(''axios'', JStr ''^1.6.0'')]),
           (''devDependencies'',
              JObj [(''@types/node'', JStr ''^20.0.0''), (''typescript'', JStr ''^5.0.0'')])]"

definition tsconfigJson :: json where
  "tsconfigJson =
     JObj [(''compilerOptions'',
              JObj [(''target'', JStr ''ES2020''),
                    (''module'', JStr ''commonjs''),
                    (''lib'', JArr [JStr ''ES2020'']),
                    (''declaration'', JBool True),
                    (''outDir'', JStr ''./dist''),
                    (''rootDir'', JStr ''./src''),
                    (''strict'', JBool True),
                    (''esModuleInterop'', JBool True),
                    (''skipLibCheck'', JBool True),
                    (''forceConsistentCasingInFileNames'', JBool True)]),
           (''include'', JArr [JStr ''src/**/*'']),
           (''exclude'', JArr [JStr ''node_modules'', JStr ''dist''])]"

section \<open>Effects: the files a run writes\<close>

text \<open>
  What a run does to the outside is a list of effects, in order. A directory
  created when it does not exist is \<open>EnsureDir\<close>. Of the console output only
  the fallback notice of the engine is kept. Paths are joined with a slash.
\<close>

datatype artifact =
    Text string
  | ClientSource ClientTemplateData
  | JsonText json

datatype effect =
    EnsureDir string
  | WriteFile string artifact
  | Notice string

definition pathJoin :: "string \<Rightarrow> string \<Rightarrow> string" where
  "pathJoin a b = a @ ''/'' @ b"

text \<open>The generator object holds the configuration it was constructed with.\<close>

datatype generator = TypeScriptGenerator GeneratorConfig

fun generatorOutputDir :: "generator \<Rightarrow> string" where
  "generatorOutputDir (TypeScriptGenerator config) = pathJoin (outputDir config) (language config)"

definition writeFile :: "generator \<Rightarrow> string \<Rightarrow> artifact \<Rightarrow> effect list" where
  "writeFile g filename content =
     [EnsureDir (generatorOutputDir g),
      WriteFile (pathJoin (generatorOutputDir g) filename) content]"

text \<open>\<open>TypeScriptGenerator.generate\<close>\<close>

definition generatorGenerate :: "generator \<Rightarrow> GeneratorContext \<Rightarrow> effect list" where
  "generatorGenerate g context =
     (let config = ctx_config context;
          spec = ctx_spec context
      in [EnsureDir (generatorOutputDir g)]
         @ (case generateSchemas (spec_schemas spec) of
              None \<Rightarrow> []
            | Some content \<Rightarrow> writeFile g ''types.ts'' (Text content))
         @ writeFile g ''index.ts'' (ClientSource (generateClientCode context))
         @ (if includeErrorHandling config
            then writeFile g ''errors.ts'' (Text (join ''\<newline>'' errorsContent)) else [])
         @ writeFile g ''params.ts'' (Text (generateTypesFile context))
         @ (if includeExamples config
            then writeFile g ''examples.ts'' (Text (generateExamples context)) else [])
         @ writeFile g ''package.json'' (JsonText (packageJson config))
         @ writeFile g ''tsconfig.json'' (JsonText tsconfigJson))"

section \<open>The generation engine (engine.ts)\<close>

text \<open>
  \<open>getGenerator\<close>: the generator, and the notice printed when the language is
  not \<open>typescript\<close>.
\<close>

definition getGenerator :: "GeneratorConfig \<Rightarrow> generator \<times> effect list" where
  "getGenerator config =
     (if language config = ''typescript'' then (TypeScriptGenerator config, [])
      else (TypeScriptGenerator config,
            [Notice (''Note: '' @ language config
                     @ '' not yet fully implemented, generating TypeScript client'')]))"

text \<open>\<open>new CodeGeneratorEngine(config, spec).generate()\<close>\<close>

definition engineGenerate :: "GeneratorConfig \<Rightarrow> ParsedAPISpec \<Rightarrow> effect list" where
  "engineGenerate config spec =
     (let context = buildContext config spec;
          (g, notice) = getGenerator config
      in [EnsureDir (outputDir config)] @ notice @ generatorGenerate g context)"

section \<open>The command line\<close>

text \<open>
  The files on disk that hold a JSON document, by resolved path. The options
  are the command's arguments, the paths already resolved.
\<close>

type_synonym fileSystem = "string \<Rightarrow> document option"

record options =
  opt_input :: string
  opt_output :: string
  opt_language :: string
  opt_name :: string
  opt_examples :: bool
  opt_errors :: bool

definition validLanguages :: "string list" where
  "validLanguages = [''typescript'', ''python'', ''go'']"

definition configOf :: "options \<Rightarrow> bool \<Rightarrow> GeneratorConfig" where
  "configOf opts watching =
     \<lparr> inputFile = opt_input opts,
       outputDir = opt_output opts,
       language = opt_language opts,
       clientName = opt_name opts,
       includeExamples = opt_examples opts,
       includeErrorHandling = opt_errors opts,
       watchMode = watching \<rparr>"

text \<open>The \<open>generate\<close> command.\<close>

definition generateClient :: "fileSystem \<Rightarrow> options \<Rightarrow> error + effect list" where
  "generateClient fs opts =
     (case fs (opt_input opts) of
        None \<Rightarrow> Inl InputFileNotFound
      | Some content \<Rightarrow>
          if opt_language opts \<notin> set validLanguages then Inl InvalidLanguage
          else (case parseDocument content of
                  Inl e \<Rightarrow> Inl e
                | Inr spec \<Rightarrow> Inr (engineGenerate (configOf opts False) spec)))"

text \<open>
  The \<open>watch\<close> command, up to the first generation; the watcher it then
  registers generates again on every change of the input file.
\<close>

definition watchAndGenerate :: "fileSystem \<Rightarrow> options \<Rightarrow> error + effect list" where
  "watchAndGenerate fs opts =
     (case fs (opt_input opts) of
        None \<Rightarrow> Inl InputFileNotFound
      | Some content \<Rightarrow>
          (case parseDocument content of
             Inl e \<Rightarrow> Inl e
           | Inr spec \<Rightarrow> Inr (engineGenerate (configOf opts True) spec)))"

text \<open>The paths of the files a list of effects writes, in order.\<close>

fun writtenPaths :: "effect list \<Rightarrow> string list" where
  "writtenPaths [] = []"
| "writtenPaths (WriteFile p a # es) = p # writtenPaths es"
| "writtenPaths (EnsureDir d # es) = writtenPaths es"
| "writtenPaths (Notice n # es) = writtenPaths es"

section \<open>Example documents\<close>

definition emptySchema :: schema where
  "emptySchema = Schema None None None None None None None None None None"

definition emptyOperation :: operation where
  "emptyOperation =
     \<lparr> o_operationId = None, o_summary = None, o_description = None, o_tags = None,
       o_parameters = None, o_requestBody = None, o_responses = None, o_security = None \<rparr>"

definition emptyDocument :: document where
  "emptyDocument =
     \<lparr> d_openapi = None, d_swagger = None, d_info = None, d_servers = None, d_host = None,
       d_schemes = None, d_basePath = None, d_paths = None, d_components = None \<rparr>"

text \<open>A response with one JSON body of the given schema.\<close>

definition jsonResponse :: "schema \<Rightarrow> response" where
  "jsonResponse sch =
     \<lparr> r_description = Some ''OK'',
       r_content = Some [(''application/json'', \<lparr> mt_schema = Some sch, mt_example = None \<rparr>)] \<rparr>"

definition noContentResponse :: response where
  "noContentResponse = \<lparr> r_description = Some ''No body'', r_content = None \<rparr>"

text \<open>\<open>{type: "string"}\<close>\<close>

definition stringSchema :: schema where
  "stringSchema = Schema None (Some ''string'') None None None None None None None None"

text \<open>\<open>{$ref: "#/components/schemas/Pet"}\<close>\<close>

definition petRef :: schema where
  "petRef = Schema (Some ''#/components/schemas/Pet'') None None None None None None None None None"

text \<open>\<open>{type: "array", items: {$ref: "#/components/schemas/Pet"}}\<close>\<close>

definition petArraySchema :: schema where
  "petArraySchema = Schema None (Some ''array'') (Some petRef) None None None None None None None"

text \<open>\<open>GET /pets\<close>, answering 101 without a body, 200 with an array of pets, 404 without a body.\<close>

definition listPetsOperation :: operation where
  "listPetsOperation =
     emptyOperation \<lparr> o_responses :=
       Some [(''101'', noContentResponse),
             (''200'', jsonResponse petArraySchema),
             (''404'', noContentResponse)] \<rparr>"

definition listPetsEndpoint :: ParsedEndpoint where
  "listPetsEndpoint = parseEndpoint ''/pets'' ''GET'' listPetsOperation"

text \<open>\<open>GET /name\<close>, answering 200 with a string.\<close>

definition getNameOperation :: operation where
  "getNameOperation =
     emptyOperation \<lparr> o_responses := Some [(''200'', jsonResponse stringSchema)] \<rparr>"

definition getNameEndpoint :: ParsedEndpoint where
  "getNameEndpoint = parseEndpoint ''/name'' ''GET'' getNameOperation"

text \<open>
  A document with three operations on two paths and one schema:
  \<open>Pet{id: integer, name: string}\<close> with \<open>name\<close> required, \<open>GET /pets\<close>,
  \<open>POST /pets\<close> and \<open>GET /pets/{id}\<close>.
\<close>

definition petSchema :: schema where
  "petSchema =
     Schema None (Some ''object'') None
       (Some [(''id'', Schema None (Some ''integer'') None None None None None None None None),
              (''name'', stringSchema)])
       (Some [''name'']) None None None None None"

definition getPetOperation :: operation where
  "getPetOperation =
     emptyOperation \<lparr> o_operationId := Some ''getPetById'', o_tags := Some [''pets''],
                      o_responses := Some [(''200'', jsonResponse petRef)] \<rparr>"

definition petStoreDocument :: document where
  "petStoreDocument =
     emptyDocument \<lparr>
       d_openapi := Some ''3.0.0'',
       d_paths := Some [(''/pets'', [(''get'', listPetsOperation), (''post'', emptyOperation)]),
                        (''/pets/{id}'', [(''get'', getPetOperation)])],
       d_components := Some \<lparr> c_schemas = Some [(''Pet'', petSchema)],
                                c_securitySchemes = None \<rparr> \<rparr>"

text \<open>\<open>{"openapi": ""}\<close>: the marker field is there, and empty.\<close>

definition emptyMarkerDocument :: document where
  "emptyMarkerDocument = emptyDocument \<lparr> d_openapi := Some '''' \<rparr>"

text \<open>\<open>{"swagger": "2.0"}\<close>: a marker and nothing else.\<close>

definition markerOnlyDocument :: document where
  "markerOnlyDocument = emptyDocument \<lparr> d_swagger := Some ''2.0'' \<rparr>"

definition exampleConfig :: GeneratorConfig where
  "exampleConfig =
     \<lparr> inputFile = ''/work/api.json'', outputDir = ''/work/out'', language = ''typescript'',
       clientName = ''PetStore'', includeExamples = False, includeErrorHandling = True,
       watchMode = False \<rparr>"

text \<open>\<open>GET /x\<close> with \<open>tags: ["a", "a"]\<close>, and the document that declares only it.\<close>

definition repeatedTagEndpoint :: ParsedEndpoint where
  "repeatedTagEndpoint =
     parseEndpoint ''/x'' ''GET'' (emptyOperation \<lparr> o_tags := Some [''a'', ''a''] \<rparr>)"

definition repeatedTagDocument :: document where
  "repeatedTagDocument =
     emptyDocument \<lparr>
       d_openapi := Some ''3.0.0'',
       d_paths := Some [(''/x'', [(''get'', emptyOperation \<lparr> o_tags := Some [''a'', ''a''] \<rparr>)])] \<rparr>"

text \<open>\<open>GET /pets\<close> tagged \<open>pets\<close> and \<open>store\<close>, and \<open>GET /health\<close> with no \<open>tags\<close> field.\<close>

definition taggedDocument :: document where
  "taggedDocument =
     emptyDocument \<lparr>
       d_openapi := Some ''3.0.0'',
       d_paths := Some [(''/pets'', [(''get'', emptyOperation \<lparr> o_tags := Some [''pets'', ''store''] \<rparr>)]),
                        (''/health'', [(''get'', emptyOperation)])] \<rparr>"

text \<open>\<open>GET /hidden\<close> with \<open>tags: []\<close>, and the document that declares only it.\<close>

definition untaggedDocument :: document where
  "untaggedDocument =
     emptyDocument \<lparr>
       d_openapi := Some ''3.0.0'',
       d_paths := Some [(''/hidden'', [(''get'', emptyOperation \<lparr> o_tags := Some [] \<rparr>)])] \<rparr>"

text \<open>
  A disk that holds the example document at \<open>/work/api.json\<close>, and the
  arguments \<open>-i /work/api.json -o /work/out -l rust\<close>.
\<close>

definition exampleFiles :: fileSystem where
  "exampleFiles = (\<lambda>path. if path = ''/work/api.json'' then Some petStoreDocument else None)"

definition rustOptions :: options where
  "rustOptions =
     \<lparr> opt_input = ''/work/api.json'', opt_output = ''/work/out'', opt_language = ''rust'',
       opt_name = ''APIClient'', opt_examples = False, opt_errors = True \<rparr>"

text \<open>
  A document with both a server entry and the legacy host fields, and one
  with the legacy fields only.
\<close>

definition bothStylesDocument :: document where
  "bothStylesDocument =
     emptyDocument \<lparr>
       d_openapi := Some ''3.0.0'',
       d_servers := Some [\<lparr> sv_url = Some ''https://api.pets.test/v2'' \<rparr>,
                          \<lparr> sv_url = Some ''https://staging.pets.test'' \<rparr>],
       d_host := Some ''legacy.pets.test'' \<rparr>"

definition legacyDocument :: document where
  "legacyDocument =
     emptyDocument \<lparr>
       d_swagger := Some ''2.0'',
       d_host := Some ''legacy.pets.test'',
       d_basePath := Some ''/v1'' \<rparr>"

text \<open>The arguments \<open>-i /work/api.json -o /work/out -l typescript -e\<close>.\<close>

definition typescriptOptions :: options where
  "typescriptOptions =
     \<lparr> opt_input = ''/work/api.json'', opt_output = ''/work/out'',
       opt_language = ''typescript'', opt_name = ''APIClient'', opt_examples = True,
       opt_errors = True \<rparr>"

section \<open>Evaluation of the examples\<close>

lemmas example_defs =
  emptySchema_def emptyOperation_def emptyDocument_def jsonResponse_def
  noContentResponse_def stringSchema_def petRef_def petArraySchema_def
  listPetsOperation_def listPetsEndpoint_def getNameOperation_def getNameEndpoint_def
  petSchema_def getPetOperation_def petStoreDocument_def
  emptyMarkerDocument_def markerOnlyDocument_def exampleConfig_def
  repeatedTagEndpoint_def repeatedTagDocument_def taggedDocument_def untaggedDocument_def
  exampleFiles_def rustOptions_def bothStylesDocument_def legacyDocument_def
  typescriptOptions_def

lemmas parser_defs =
  parseEndpoint_def parseParameters_def parseRequestBody_def parseResponses_def
  parseSecurity_def firstContent_def generateOperationId_def filterBoolean_def
  capitalizeFirst_def toLowerCase_def toUpperCase_def toLowerCaseChar_def
  toUpperCaseChar_def lowerLetters_def upperLetters_def truthyStr_def truthyBool_def
  orElse_def

section \<open>Lists and strings\<close>

lemma find_first:
  assumes "\<forall>x \<in> set pre. \<not> P x" and "P r"
  shows "find P (pre @ r # post) = Some r"
  using assms by (induction pre) auto

lemma find_none: "(\<forall>x \<in> set xs. \<not> P x) \<Longrightarrow> find P xs = None"
  by (induction xs) auto

lemma split_not_Nil: "split sep s \<noteq> []"
  by (induction s) (auto split: list.splits)

lemma split_no_separator: "sep \<notin> set seg \<Longrightarrow> split sep seg = [seg]"
  by (induction seg) auto

lemma split_at_separator:
  "sep \<notin> set seg \<Longrightarrow> split sep (seg @ sep # rest) = seg # split sep rest"
  by (induction seg) auto

lemma split_leading_separators:
  "split sep (replicate k sep @ s) = replicate k [] @ split sep s"
  by (induction k) auto

lemma length_split: "length (split sep s) = Suc (length (filter (\<lambda>c. c = sep) s))"
  by (induction s) (auto split: list.splits)

lemma last_split_after_separator:
  "last (split sep (pre @ sep # name)) = last (split sep name)"
proof (induction pre)
  case Nil
  then show ?case by (simp add: split_not_Nil)
next
  case (Cons c pre)
  have "length (split sep (pre @ sep # name)) \<ge> 2"
    by (simp add: length_split)
  then obtain w v ws where "split sep (pre @ sep # name) = w # v # ws"
    by (cases "split sep (pre @ sep # name)"; cases "tl (split sep (pre @ sep # name))") auto
  with Cons show ?case by auto
qed

section \<open>The outcome of parsing\<close>

lemma parseDocument_Inr:
  "truthyStr (d_openapi doc) \<or> truthyStr (d_swagger doc) \<Longrightarrow> parseDocument doc = Inr (parse doc)"
  by (auto simp add: parseDocument_def OpenAPIParser_def)

lemma parseDocument_Inl:
  "\<not> truthyStr (d_openapi doc) \<Longrightarrow> \<not> truthyStr (d_swagger doc) \<Longrightarrow>
   parseDocument doc = Inl InvalidSpecification"
  by (simp add: parseDocument_def OpenAPIParser_def)


section \<open>The loops of the parser\<close>



lemma parseMethods_keys:
  "map (\<lambda>e. (ep_path e, ep_method e)) (parseMethods pathKey pathItem ms)
     = map (\<lambda>m. (pathKey, toUpperCase m)) (filter (\<lambda>m. map_of pathItem m \<noteq> None) ms)"
  by (induction ms) (auto simp add: parseEndpoint_def)




lemma upper_methods:
  "map toUpperCase methods = [''GET'', ''POST'', ''PUT'', ''DELETE'', ''PATCH'', ''OPTIONS'', ''HEAD'']"
  by (simp add: methods_def toUpperCase_def toUpperCaseChar_def lowerLetters_def upperLetters_def)

lemma parseMethods_path: "e \<in> set (parseMethods pathKey pathItem ms) \<Longrightarrow> ep_path e = pathKey"
  by (induction ms) (auto simp add: parseEndpoint_def split: option.splits)

lemma parsePaths_path: "e \<in> set (parsePaths ps) \<Longrightarrow> ep_path e \<in> set (map fst ps)"
  by (induction ps) (auto dest: parseMethods_path)

lemma distinct_Pair: "distinct (map (Pair k) ys) = distinct ys"
  by (simp add: distinct_map inj_on_def)

lemma distinct_parseMethods: "distinct (parseMethods pathKey pathItem methods)"
proof -
  have "distinct (map toUpperCase methods)"
    by (simp add: upper_methods)
  then have "distinct (map toUpperCase (filter (\<lambda>m. map_of pathItem m \<noteq> None) methods))"
    by (rule distinct_map_filter)
  then have "distinct (map (Pair pathKey)
                         (map toUpperCase (filter (\<lambda>m. map_of pathItem m \<noteq> None) methods)))"
    by (simp only: distinct_Pair)
  then have "distinct (map (\<lambda>e. (ep_path e, ep_method e)) (parseMethods pathKey pathItem methods))"
    by (simp only: parseMethods_keys map_map comp_def)
  then show ?thesis
    using distinct_map by blast
qed

text \<open>
  The keys of an object are pairwise distinct, so no two parsed endpoints
  are equal: they differ in path or in method.
\<close>

lemma distinct_parsePaths: "distinct (map fst ps) \<Longrightarrow> distinct (parsePaths ps)"
proof (induction ps)
  case Nil
  then show ?case by simp
next
  case (Cons p ps)
  obtain k item where p: "p = (k, item)" by (cases p)
  have "set (parseMethods k item methods) \<inter> set (parsePaths ps) = {}"
  proof (rule ccontr)
    assume "set (parseMethods k item methods) \<inter> set (parsePaths ps) \<noteq> {}"
    then obtain e where "e \<in> set (parseMethods k item methods)" and "e \<in> set (parsePaths ps)"
      by auto
    then have "k \<in> set (map fst ps)"
      using parseMethods_path parsePaths_path by metis
    then show False
      using Cons.prems p by simp
  qed
  then show ?case
    using Cons p by (simp add: distinct_parseMethods)
qed

lemma distinct_parsed_endpoints:
  "distinct (map fst (case d_paths doc of None \<Rightarrow> [] | Some ps \<Rightarrow> ps)) \<Longrightarrow>
   distinct (spec_endpoints (parse doc))"
  by (simp add: parse_def parseEndpoints_def distinct_parsePaths split: option.splits)


section \<open>Return-type inference\<close>

lemma getSchemaType_ref:
  "truthyStr (s_ref sch) \<Longrightarrow> getSchemaType (Some sch) = refName (the (s_ref sch))"
  by (cases sch) (simp add: refName_def)

lemma getSchemaType_array_ref:
  assumes "\<not> truthyStr (s_ref sch)" and "s_type sch = Some ''array''"
    and "s_items sch = Some items" and "truthyStr (s_ref items)"
  shows "getSchemaType (Some sch) = refName (the (s_ref items)) @ ''[]''"
  using assms by (cases sch; cases items) (simp add: refName_def)

lemma refName_after_slash: "CHR ''/'' \<notin> set name \<Longrightarrow> refName (pre @ CHR ''/'' # name) = name"
  by (simp add: refName_def last_split_after_separator split_no_separator)

text \<open>
  C1, as amended. The return type of an endpoint comes from the first response,
  in order, whose status code begins with \<open>2\<close>. With no such response, or when
  it carries no schema, the type is \<open>any\<close>. A schema that is a reference
  yields the last segment of the reference string, and an array whose items
  are a reference yields that segment followed by \<open>[]\<close>; in both cases this is
  the label the normalizer gives the schema. Every other array yields
  \<open>any[]\<close>, and every other schema, a declared primitive included, yields
  \<open>any\<close>.
\<close>

theorem getReturnType_rules:
  "((\<forall>x \<in> set (ep_responses e). \<not> startsWith (pr_statusCode x) ''2'')
      \<longrightarrow> getReturnType e = ''any'')
   \<and> (ep_responses e = pre @ r # post
        \<and> (\<forall>x \<in> set pre. \<not> startsWith (pr_statusCode x) ''2'')
        \<and> startsWith (pr_statusCode r) ''2''
      \<longrightarrow> (pr_schema r = None \<longrightarrow> getReturnType e = ''any'')
        \<and> (\<forall>sch. pr_schema r = Some sch \<longrightarrow>
              (truthyStr (s_ref sch) \<longrightarrow>
                 getReturnType e = refName (the (s_ref sch))
                 \<and> getSchemaType (Some sch) = refName (the (s_ref sch)))
            \<and> (\<not> truthyStr (s_ref sch) \<and> s_type sch = Some ''array'' \<longrightarrow>
                 (\<forall>items. s_items sch = Some items \<and> truthyStr (s_ref items) \<longrightarrow>
                    getReturnType e = refName (the (s_ref items)) @ ''[]''
                    \<and> getSchemaType (Some sch) = refName (the (s_ref items)) @ ''[]'')
                 \<and> (s_items sch = None
                        \<or> (\<exists>items. s_items sch = Some items \<and> \<not> truthyStr (s_ref items))
                      \<longrightarrow> getReturnType e = ''any[]''))
            \<and> (\<not> truthyStr (s_ref sch) \<and> s_type sch \<noteq> Some ''array'' \<longrightarrow>
                 getReturnType e = ''any'')))"
proof (intro conjI impI allI)
  assume "\<forall>x \<in> set (ep_responses e). \<not> startsWith (pr_statusCode x) ''2''"
  then show "getReturnType e = ''any''"
    by (simp add: getReturnType_def find_none)
next
  assume h: "ep_responses e = pre @ r # post
        \<and> (\<forall>x \<in> set pre. \<not> startsWith (pr_statusCode x) ''2'')
        \<and> startsWith (pr_statusCode r) ''2''"
  then have f: "find (\<lambda>r. startsWith (pr_statusCode r) ''2'') (ep_responses e) = Some r"
    by (simp add: find_first)
  { assume "pr_schema r = None"
    then show "getReturnType e = ''any''" using f by (simp add: getReturnType_def) }
  { fix sch assume s: "pr_schema r = Some sch"
    { assume t: "truthyStr (s_ref sch)"
      then show "getReturnType e = refName (the (s_ref sch))"
        using f s by (simp add: getReturnType_def)
      show "getSchemaType (Some sch) = refName (the (s_ref sch))"
        using t by (simp add: getSchemaType_ref) }
    { assume t: "\<not> truthyStr (s_ref sch) \<and> s_type sch = Some ''array''"
      { fix items assume i: "s_items sch = Some items \<and> truthyStr (s_ref items)"
        then show "getReturnType e = refName (the (s_ref items)) @ ''[]''"
          using f s t by (simp add: getReturnType_def)
        show "getSchemaType (Some sch) = refName (the (s_ref items)) @ ''[]''"
          using t i by (simp add: getSchemaType_array_ref) }
      { assume "s_items sch = None
                  \<or> (\<exists>items. s_items sch = Some items \<and> \<not> truthyStr (s_ref items))"
        then show "getReturnType e = ''any[]''"
          using f s t by (auto simp add: getReturnType_def) } }
    { assume "\<not> truthyStr (s_ref sch) \<and> s_type sch \<noteq> Some ''array''"
      then show "getReturnType e = ''any''"
        using f s by (simp add: getReturnType_def) } }
qed

text \<open>
  The endpoint parsed from \<open>GET /pets\<close>: its first response (101) is not a
  success, its second (200) is, with an array of \<open>Pet\<close> references.
\<close>

theorem getReturnType_rules_witness:
  "map pr_statusCode (ep_responses listPetsEndpoint) = [''101'', ''200'', ''404'']
   \<and> \<not> startsWith ''101'' ''2'' \<and> startsWith ''200'' ''2''
   \<and> pr_schema (ep_responses listPetsEndpoint ! 1) = Some petArraySchema
   \<and> getReturnType listPetsEndpoint = ''Pet[]''
   \<and> getSchemaType (Some petArraySchema) = ''Pet[]''"
proof -
  let ?r101 = "\<lparr> pr_statusCode = ''101'', pr_description = ''No body'',
                  pr_schema = None, pr_example = None \<rparr>"
  let ?r200 = "\<lparr> pr_statusCode = ''200'', pr_description = ''OK'',
                  pr_schema = Some petArraySchema, pr_example = None \<rparr>"
  let ?r404 = "\<lparr> pr_statusCode = ''404'', pr_description = ''No body'',
                  pr_schema = None, pr_example = None \<rparr>"
  have rs: "ep_responses listPetsEndpoint = [?r101] @ ?r200 # [?r404]"
    by (simp add: example_defs parser_defs)
  have pre: "\<forall>x \<in> set [?r101]. \<not> startsWith (pr_statusCode x) ''2''"
    by (simp add: startsWith_def)
  have ok: "startsWith (pr_statusCode ?r200) ''2''"
    by (simp add: startsWith_def)
  have sch: "\<not> truthyStr (s_ref petArraySchema) \<and> s_type petArraySchema = Some ''array''"
    by (simp add: example_defs truthyStr_def)
  have its: "s_items petArraySchema = Some petRef \<and> truthyStr (s_ref petRef)"
    by (simp add: example_defs truthyStr_def)
  have ret: "getReturnType listPetsEndpoint = refName (the (s_ref petRef)) @ ''[]''
        \<and> getSchemaType (Some petArraySchema) = refName (the (s_ref petRef)) @ ''[]''"
    using getReturnType_rules [of listPetsEndpoint "[?r101]" ?r200 "[?r404]"] rs pre ok sch its
    by simp
  have name: "refName (the (s_ref petRef)) = ''Pet''"
    by (simp add: example_defs refName_def)
  have "getReturnType listPetsEndpoint = ''Pet[]''"
    using ret name by simp
  moreover have "getSchemaType (Some petArraySchema) = ''Pet[]''"
    using ret name by simp
  ultimately show ?thesis
    using rs by (simp add: startsWith_def)
qed

text \<open>
  The claim as stated fails on a declared primitive: the endpoint parsed from
  \<open>GET /name\<close> has one response, 200, with schema \<open>{type: "string"}\<close>. The
  normalizer labels that schema \<open>string\<close>; the return type is \<open>any\<close>.
\<close>

theorem getReturnType_primitive_counterexample:
  "map pr_statusCode (ep_responses getNameEndpoint) = [''200'']
   \<and> map pr_schema (ep_responses getNameEndpoint) = [Some stringSchema]
   \<and> getSchemaType (Some stringSchema) = ''string''
   \<and> getReturnType getNameEndpoint = ''any''
   \<and> getReturnType getNameEndpoint \<noteq> ''string''"
  by (simp add: example_defs parser_defs getReturnType_def startsWith_def)


section \<open>Required and optional properties in the types artifact\<close>

lemma parsed_properties_not_flagged:
  "\<forall>p \<in> set (ps_properties (parseSchema (name, sch))). prop_required p = False"
  by (auto simp add: parseSchema_def parseProperty_def split: option.splits)

lemma types_file_written:
  "generateSchemas (spec_schemas (ctx_spec ctx)) = Some content \<Longrightarrow>
   WriteFile (pathJoin (generatorOutputDir g) ''types.ts'') (Text content)
     \<in> set (generatorGenerate g ctx)"
  by (simp add: generatorGenerate_def writeFile_def Let_def)

text \<open>
  C2. In the types artifact the declaration of a property carries the
  optional marker \<open>?\<close> exactly when the name of the property is not in the
  required list of the schema that owns it. The flag stored on the property
  plays no part: the parser stores \<open>false\<close> on every property and keeps the
  required names on the schema, and the emitted line is the same whatever
  the stored flag is. The artifact is one interface per schema, each with one
  such line per property, and it is what the generator writes to \<open>types.ts\<close>.
\<close>

theorem required_by_membership:
  "propertyLine sch prop
     = ''  /** '' @ orElse (prop_description prop) (prop_name prop) @ '' */\<newline>  ''
       @ prop_name prop
       @ (if prop_name prop \<in> set (ps_required sch) then '''' else ''?'')
       @ '': '' @ mapType (prop_type prop) (prop_nullable prop) @ '';''
   \<and> propertyLine sch (prop \<lparr> prop_required := flag \<rparr>) = propertyLine sch prop
   \<and> (schemas \<noteq> [] \<longrightarrow>
        generateSchemas schemas
          = Some (join ''\<newline>\<newline>''
              (map (\<lambda>s. ''/** '' @ orElse (ps_description s) (ps_name s)
                        @ '' */\<newline>export interface '' @ ps_name s @ '' {\<newline>''
                        @ join ''\<newline>'' (map (propertyLine s) (ps_properties s))
                        @ ''\<newline>}'')
                 schemas)))
   \<and> (\<forall>content. generateSchemas (spec_schemas (ctx_spec ctx)) = Some content \<longrightarrow>
        WriteFile (pathJoin (generatorOutputDir g) ''types.ts'') (Text content)
          \<in> set (generatorGenerate g ctx))
   \<and> (\<forall>s \<in> set (parseSchemas doc). \<forall>p \<in> set (ps_properties s). prop_required p = False)
   \<and> ps_required (parseSchema (name, raw)) = (case s_required raw of None \<Rightarrow> [] | Some r \<Rightarrow> r)
   \<and> map prop_name (ps_properties (parseSchema (name, raw)))
        = (case s_properties raw of None \<Rightarrow> [] | Some props \<Rightarrow> map fst props)"
proof (intro conjI impI allI)
  show "propertyLine sch prop
     = ''  /** '' @ orElse (prop_description prop) (prop_name prop) @ '' */\<newline>  ''
       @ prop_name prop
       @ (if prop_name prop \<in> set (ps_required sch) then '''' else ''?'')
       @ '': '' @ mapType (prop_type prop) (prop_nullable prop) @ '';''"
    by (simp add: propertyLine_def isRequired_def)
  show "propertyLine sch (prop \<lparr> prop_required := flag \<rparr>) = propertyLine sch prop"
    by (simp add: propertyLine_def isRequired_def)
  show "schemas \<noteq> [] \<Longrightarrow>
        generateSchemas schemas
          = Some (join ''\<newline>\<newline>''
              (map (\<lambda>s. ''/** '' @ orElse (ps_description s) (ps_name s)
                        @ '' */\<newline>export interface '' @ ps_name s @ '' {\<newline>''
                        @ join ''\<newline>'' (map (propertyLine s) (ps_properties s))
                        @ ''\<newline>}'')
                 schemas))"
  proof -
    have "interfaceText
            = (\<lambda>s. ''/** '' @ orElse (ps_description s) (ps_name s)
                        @ '' */\<newline>export interface '' @ ps_name s @ '' {\<newline>''
                        @ join ''\<newline>'' (map (propertyLine s) (ps_properties s))
                        @ ''\<newline>}'')"
      by (rule ext) (simp add: interfaceText_def)
    then show "schemas \<noteq> [] \<Longrightarrow>
        generateSchemas schemas
          = Some (join ''\<newline>\<newline>''
              (map (\<lambda>s. ''/** '' @ orElse (ps_description s) (ps_name s)
                        @ '' */\<newline>export interface '' @ ps_name s @ '' {\<newline>''
                        @ join ''\<newline>'' (map (propertyLine s) (ps_properties s))
                        @ ''\<newline>}'')
                 schemas))"
      by (simp add: generateSchemas_def)
  qed
  show "\<And>content. generateSchemas (spec_schemas (ctx_spec ctx)) = Some content \<Longrightarrow>
        WriteFile (pathJoin (generatorOutputDir g) ''types.ts'') (Text content)
          \<in> set (generatorGenerate g ctx)"
    by (rule types_file_written)
  show "\<forall>s \<in> set (parseSchemas doc). \<forall>p \<in> set (ps_properties s). prop_required p = False"
    using parsed_properties_not_flagged
    by (auto simp add: parseSchemas_def split: option.splits)
  show "ps_required (parseSchema (name, raw)) = (case s_required raw of None \<Rightarrow> [] | Some r \<Rightarrow> r)"
    by (simp add: parseSchema_def)
  show "map prop_name (ps_properties (parseSchema (name, raw)))
        = (case s_properties raw of None \<Rightarrow> [] | Some props \<Rightarrow> map fst props)"
    by (simp add: parseSchema_def parseProperty_def split_def comp_def split: option.splits)
qed

text \<open>
  The document with the one schema \<open>Pet{id: integer, name: string}\<close>, \<open>name\<close>
  required: \<open>id\<close> is declared optional and \<open>name\<close> required.
\<close>

theorem required_by_membership_witness:
  "map ps_name (spec_schemas (parse petStoreDocument)) = [''Pet'']
   \<and> map ps_required (spec_schemas (parse petStoreDocument)) = [[''name'']]
   \<and> map prop_required (concat (map ps_properties (spec_schemas (parse petStoreDocument))))
       = [False, False]
   \<and> generateSchemas (spec_schemas (parse petStoreDocument))
       = Some (''/** Pet */\<newline>''
               @ ''export interface Pet {\<newline>''
               @ ''  /** id */\<newline>''
               @ ''  id?: number;\<newline>''
               @ ''  /** name */\<newline>''
               @ ''  name: string;\<newline>''
               @ ''}'')
   \<and> WriteFile ''/work/out/typescript/types.ts''
         (Text (''/** Pet */\<newline>''
               @ ''export interface Pet {\<newline>''
               @ ''  /** id */\<newline>''
               @ ''  id?: number;\<newline>''
               @ ''  /** name */\<newline>''
               @ ''  name: string;\<newline>''
               @ ''}''))
       \<in> set (generatorGenerate (TypeScriptGenerator exampleConfig)
                 (buildContext exampleConfig (parse petStoreDocument)))"
proof -
  let ?spec = "parse petStoreDocument"
  let ?ctx = "buildContext exampleConfig ?spec"
  let ?id = "\<lparr> prop_name = ''id'', prop_type = ''integer'', prop_description = None,
               prop_required = False, prop_format = None, prop_items = None, prop_enum = None,
               prop_example = None, prop_ref = None, prop_nullable = None \<rparr>"
  let ?name = "\<lparr> prop_name = ''name'', prop_type = ''string'', prop_description = None,
               prop_required = False, prop_format = None, prop_items = None, prop_enum = None,
               prop_example = None, prop_ref = None, prop_nullable = None \<rparr>"
  let ?pet = "\<lparr> ps_name = ''Pet'', ps_type = ''object'', ps_properties = [?id, ?name],
               ps_required = [''name''], ps_description = None, ps_example = None,
               ps_enum = None, ps_format = None, ps_ref = None \<rparr>"
  let ?text = "''/** Pet */\<newline>''
               @ ''export interface Pet {\<newline>''
               @ ''  /** id */\<newline>''
               @ ''  id?: number;\<newline>''
               @ ''  /** name */\<newline>''
               @ ''  name: string;\<newline>''
               @ ''}''"
  note rules = required_by_membership [where doc = petStoreDocument and schemas = "[?pet]"
      and g = "TypeScriptGenerator exampleConfig" and ctx = ?ctx]
  have schemas: "spec_schemas ?spec = [?pet]"
    by (simp add: parse_def parseSchemas_def petStoreDocument_def emptyDocument_def
        parseSchema_def parseProperty_def petSchema_def stringSchema_def orElse_def truthyStr_def)
  have types: "mapType ''integer'' None = ''number''" "mapType ''string'' None = ''string''"
    by (simp_all add: mapType_def typeMap_def truthyBool_def toLowerCase_def toLowerCaseChar_def
        lowerLetters_def upperLetters_def)
  have idLine: "propertyLine ?pet ?id = ''  /** id */\<newline>  id?: number;''"
    using rules [of ?pet ?id] types by (simp add: orElse_def)
  have nameLine: "propertyLine ?pet ?name = ''  /** name */\<newline>  name: string;''"
    using rules [of ?pet ?name] types by (simp add: orElse_def)
  have "generateSchemas [?pet]
          = Some (join ''\<newline>\<newline>''
              (map (\<lambda>s. ''/** '' @ orElse (ps_description s) (ps_name s)
                        @ '' */\<newline>export interface '' @ ps_name s @ '' {\<newline>''
                        @ join ''\<newline>'' (map (propertyLine s) (ps_properties s))
                        @ ''\<newline>}'')
                 [?pet]))"
    using rules by blast
  then have content: "generateSchemas (spec_schemas ?spec) = Some ?text"
    by (simp add: schemas idLine nameLine orElse_def)
  have "spec_schemas (ctx_spec ?ctx) = spec_schemas ?spec"
    by (simp add: buildContext_def)
  then have "WriteFile (pathJoin (generatorOutputDir (TypeScriptGenerator exampleConfig)) ''types.ts'')
          (Text ?text) \<in> set (generatorGenerate (TypeScriptGenerator exampleConfig) ?ctx)"
    using rules content by simp
  moreover have "pathJoin (generatorOutputDir (TypeScriptGenerator exampleConfig)) ''types.ts''
                   = ''/work/out/typescript/types.ts''"
    by (simp add: pathJoin_def exampleConfig_def)
  moreover have "map prop_required (concat (map ps_properties (spec_schemas ?spec))) = [False, False]"
    by (simp add: schemas)
  ultimately show ?thesis
    using content by (simp add: schemas)
qed


section \<open>The version-marker check\<close>








section \<open>Operation identifiers\<close>

lemma filterBoolean_replicate_Nil: "filterBoolean (replicate k [] @ xs) = filterBoolean xs"
  by (induction k) (auto simp add: filterBoolean_def)

lemma first_segment:
  assumes "seg \<noteq> []" and "CHR ''/'' \<notin> set seg"
    and "rest = [] \<or> (\<exists>r. rest = CHR ''/'' # r)"
  shows "\<exists>ps. filterBoolean (split CHR ''/'' (replicate k CHR ''/'' @ seg @ rest)) = seg # ps"
proof -
  have "\<exists>ps. filterBoolean (split CHR ''/'' (seg @ rest)) = seg # ps"
    using assms by (auto simp add: split_no_separator split_at_separator filterBoolean_def)
  then show ?thesis
    by (simp add: split_leading_separators filterBoolean_replicate_Nil)
qed

lemma no_segment: "filterBoolean (split CHR ''/'' (replicate k CHR ''/'')) = []"
  using split_leading_separators [of "CHR ''/''" k "[]"]
  by (simp add: filterBoolean_replicate_Nil) (simp add: filterBoolean_def)

text \<open>
  C4, as amended. An operation with a declared, non-empty identifier keeps
  it. Otherwise the identifier is the method in lower case followed by the
  first non-empty segment of the path split on \<open>/\<close>, with the first character
  of that segment in upper case and the rest of it unchanged; a path with no
  segment gives \<open>Default\<close> for the segment.
\<close>

theorem operationId_synthesis:
  "(truthyStr (o_operationId op) \<longrightarrow>
      ep_operationId (parseEndpoint path method op) = the (o_operationId op))
   \<and> (\<not> truthyStr (o_operationId op) \<longrightarrow>
      ep_operationId (parseEndpoint path method op) = generateOperationId method path)
   \<and> (seg \<noteq> [] \<and> CHR ''/'' \<notin> set seg \<and> (rest = [] \<or> (\<exists>r. rest = CHR ''/'' # r)) \<longrightarrow>
      generateOperationId method (replicate k CHR ''/'' @ seg @ rest)
        = toLowerCase method @ toUpperCaseChar (hd seg) # tl seg)
   \<and> generateOperationId method (replicate k CHR ''/'') = toLowerCase method @ ''Default''"
proof (intro conjI impI)
  show "truthyStr (o_operationId op) \<Longrightarrow>
      ep_operationId (parseEndpoint path method op) = the (o_operationId op)"
    by (simp add: parseEndpoint_def)
  show "\<not> truthyStr (o_operationId op) \<Longrightarrow>
      ep_operationId (parseEndpoint path method op) = generateOperationId method path"
    by (simp add: parseEndpoint_def)
  show "generateOperationId method (replicate k CHR ''/'') = toLowerCase method @ ''Default''"
    by (simp add: generateOperationId_def no_segment capitalizeFirst_def toUpperCaseChar_def
        lowerLetters_def upperLetters_def)
next
  assume h: "seg \<noteq> [] \<and> CHR ''/'' \<notin> set seg \<and> (rest = [] \<or> (\<exists>r. rest = CHR ''/'' # r))"
  then obtain ps where
    "filterBoolean (split CHR ''/'' (replicate k CHR ''/'' @ seg @ rest)) = seg # ps"
    using first_segment by blast
  moreover obtain c cs where "seg = c # cs"
    using h by (cases seg) auto
  ultimately show "generateOperationId method (replicate k CHR ''/'' @ seg @ rest)
        = toLowerCase method @ toUpperCaseChar (hd seg) # tl seg"
    by (simp add: generateOperationId_def capitalizeFirst_def)
qed

text \<open>
  \<open>GET /pets\<close>, \<open>POST /\<close> and \<open>GET /pet-store/items\<close>, none with a declared
  identifier.
\<close>

theorem operationId_synthesis_witness:
  "\<not> truthyStr (o_operationId emptyOperation)
   \<and> ep_operationId (parseEndpoint ''/pets'' ''GET'' emptyOperation) = ''getPets''
   \<and> ep_operationId (parseEndpoint ''/'' ''POST'' emptyOperation) = ''postDefault''
   \<and> ep_operationId (parseEndpoint ''/pet-store/items'' ''GET'' emptyOperation) = ''getPet-store''"
proof -
  have none: "\<not> truthyStr (o_operationId emptyOperation)"
    by (simp add: emptyOperation_def truthyStr_def)
  have a: "ep_operationId (parseEndpoint ''/pets'' ''GET'' emptyOperation)
             = toLowerCase ''GET'' @ toUpperCaseChar (hd ''pets'') # tl ''pets''"
    using operationId_synthesis [of emptyOperation "''/pets''" "''GET''" "''pets''" "[]" 1] none
    by simp
  have b: "ep_operationId (parseEndpoint ''/'' ''POST'' emptyOperation)
             = toLowerCase ''POST'' @ ''Default''"
    using operationId_synthesis [of emptyOperation "''/''" "''POST''" "''x''" "[]" 1] none
    by simp
  have c: "ep_operationId (parseEndpoint ''/pet-store/items'' ''GET'' emptyOperation)
             = toLowerCase ''GET'' @ toUpperCaseChar (hd ''pet-store'') # tl ''pet-store''"
    using operationId_synthesis
      [of emptyOperation "''/pet-store/items''" "''GET''" "''pet-store''" "''/items''" 1] none
    by simp
  show ?thesis
    using none a b c
    by (simp add: toLowerCase_def toLowerCaseChar_def toUpperCaseChar_def
        lowerLetters_def upperLetters_def)
qed

text \<open>
  The claim as stated fails on a hyphenated segment: for \<open>GET /pet-store\<close> the
  synthesized identifier keeps the hyphen, where the PascalCase form of the
  segment (by the generator's own \<open>toPascalCase\<close>) is \<open>PetStore\<close>.
\<close>

theorem operationId_hyphen_counterexample:
  "ep_operationId (parseEndpoint ''/pet-store'' ''GET'' emptyOperation) = ''getPet-store''
   \<and> toLowerCase ''GET'' @ toPascalCase ''pet-store'' = ''getPetStore''"
  by (simp add: emptyOperation_def parser_defs toPascalCase_def replaceFirstChar_def
      isLineTerminator_def isAlnum_def digitChars_def)


section \<open>Grouping by tag\<close>

text \<open>The keys of a list in order of first occurrence.\<close>

lemma first_occurrences_snoc:
  "rev (remdups (rev (xs @ [t])))
     = (if t \<in> set xs then rev (remdups (rev xs)) else rev (remdups (rev xs)) @ [t])"
  by simp

lemma keys_pushToTag:
  "map fst (pushToTag m tag e)
     = (if tag \<in> set (map fst m) then map fst m else map fst m @ [tag])"
  by (induction m) (auto simp add: rev_image_eqI)

lemma bucket_pushToTag:
  "bucket (pushToTag m tag e) t = (if t = tag then bucket m t @ [e] else bucket m t)"
  by (induction m) (auto simp add: bucket_def)

lemma keys_pushToTags:
  "map fst m = rev (remdups (rev xs)) \<Longrightarrow>
   map fst (pushToTags m ts e) = rev (remdups (rev (xs @ ts)))"
proof (induction ts arbitrary: m xs)
  case Nil
  then show ?case by simp
next
  case (Cons t ts)
  have "map fst (pushToTag m t e) = rev (remdups (rev (xs @ [t])))"
    using Cons.prems by (simp add: keys_pushToTag)
  from Cons.IH [OF this] show ?case by simp
qed

lemma bucket_pushToTags:
  "bucket (pushToTags m ts e) t = bucket m t @ replicate (count_list ts t) e"
proof (induction ts arbitrary: m)
  case Nil
  then show ?case by simp
next
  case (Cons a ts)
  then show ?case
    by (simp add: bucket_pushToTag replicate_app_Cons_same)
qed

lemma keys_groupByTag:
  "map fst m = rev (remdups (rev xs)) \<Longrightarrow>
   map fst (groupByTag m eps) = rev (remdups (rev (xs @ concat (map ep_tags eps))))"
proof (induction eps arbitrary: m xs)
  case Nil
  then show ?case by simp
next
  case (Cons e eps)
  have "map fst (pushToTags m (ep_tags e) e) = rev (remdups (rev (xs @ ep_tags e)))"
    using Cons.prems by (rule keys_pushToTags)
  from Cons.IH [OF this] show ?case by simp
qed

lemma bucket_groupByTag:
  "bucket (groupByTag m eps) t
     = bucket m t @ concat (map (\<lambda>e. replicate (count_list (ep_tags e) t) e) eps)"
  by (induction eps arbitrary: m) (simp_all add: bucket_pushToTags)

lemma count_list_replicate: "count_list (replicate n x) y = (if x = y then n else 0)"
  by (induction n) auto

lemma count_list_buckets:
  "count_list (concat (map (\<lambda>e. replicate (count_list (ep_tags e) t) e) eps)) x
     = count_list eps x * count_list (ep_tags x) t"
  by (induction eps) (auto simp add: count_list_replicate)

lemma count_list_distinct: "distinct xs \<Longrightarrow> count_list xs x = (if x \<in> set xs then 1 else 0)"
  by (induction xs) auto

lemma set_buckets:
  "set (concat (map (\<lambda>e. replicate (count_list (ep_tags e) t) e) eps))
     = {e \<in> set eps. t \<in> set (ep_tags e)}"
  by (auto simp add: count_list_0_iff)

lemma entry_is_bucket:
  "distinct (map fst m) \<Longrightarrow> (t, b) \<in> set m \<Longrightarrow> bucket m t = b"
  by (simp add: bucket_def)

lemma groupByTag_skips_untagged:
  "groupByTag m (filter (\<lambda>e. ep_tags e \<noteq> []) eps) = groupByTag m eps"
  by (induction eps arbitrary: m) auto

lemma buildContext_bucket:
  "bucket (ctx_endpointsByTag (buildContext config spec)) t
     = concat (map (\<lambda>e. replicate (count_list (ep_tags e) t) e) (spec_endpoints spec))"
  by (simp add: buildContext_def bucket_groupByTag) (simp add: bucket_def)

lemma buildContext_keys:
  "map fst (ctx_endpointsByTag (buildContext config spec))
     = rev (remdups (rev (concat (map ep_tags (spec_endpoints spec)))))"
  using keys_groupByTag [of "[]" "[]" "spec_endpoints spec"]
  by (simp add: buildContext_def)

lemma buildContext_member:
  "e \<in> set (bucket (ctx_endpointsByTag (buildContext config spec)) t)
     \<longleftrightarrow> e \<in> set (spec_endpoints spec) \<and> t \<in> set (ep_tags e)"
  by (simp only: buildContext_bucket set_buckets) simp


section \<open>The tag buckets of the context\<close>

text \<open>
  C5, as amended. The bucket of a tag holds, in the order of the spec's
  endpoints, every endpoint once per occurrence of that tag in the endpoint's
  tag list: nothing is deduplicated and nothing is sorted. The buckets stand
  in the order in which their tags are first used, each entry of the map is
  the bucket of its key, and none is empty. An endpoint is in the bucket of a
  tag exactly when the tag is one of its tags; so an endpoint that the spec
  lists once, with pairwise distinct tags, is once in the bucket of each of
  its tags, and the buckets that hold it are as many as its tags. An
  operation without a \<open>tags\<close> field is parsed to the single tag \<open>default\<close>, and
  its endpoint is in the \<open>default\<close> bucket and in no other. (The endpoints
  parsed from a document are each listed once: \<open>distinct_parsed_endpoints\<close>.)
\<close>

theorem buildContext_buckets:
  "(\<forall>t. bucket (ctx_endpointsByTag (buildContext config spec)) t
          = concat (map (\<lambda>e. replicate (count_list (ep_tags e) t) e) (spec_endpoints spec)))
   \<and> map fst (ctx_endpointsByTag (buildContext config spec))
        = rev (remdups (rev (concat (map ep_tags (spec_endpoints spec)))))
   \<and> (\<forall>(t, b) \<in> set (ctx_endpointsByTag (buildContext config spec)).
         b = bucket (ctx_endpointsByTag (buildContext config spec)) t \<and> b \<noteq> [])
   \<and> (\<forall>e t. e \<in> set (bucket (ctx_endpointsByTag (buildContext config spec)) t)
            \<longleftrightarrow> e \<in> set (spec_endpoints spec) \<and> t \<in> set (ep_tags e))
   \<and> (\<forall>e t. count_list (bucket (ctx_endpointsByTag (buildContext config spec)) t) e
            = count_list (spec_endpoints spec) e * count_list (ep_tags e) t)
   \<and> (\<forall>e. count_list (spec_endpoints spec) e = 1 \<and> distinct (ep_tags e) \<longrightarrow>
         (\<forall>t \<in> set (ep_tags e).
            count_list (bucket (ctx_endpointsByTag (buildContext config spec)) t) e = 1)
         \<and> card {t. e \<in> set (bucket (ctx_endpointsByTag (buildContext config spec)) t)}
             = length (ep_tags e))
   \<and> (\<forall>path method op. o_tags op = None \<longrightarrow>
         ep_tags (parseEndpoint path method op) = [''default'']
         \<and> (parseEndpoint path method op \<in> set (spec_endpoints spec) \<longrightarrow>
              {t. parseEndpoint path method op
                    \<in> set (bucket (ctx_endpointsByTag (buildContext config spec)) t)}
                = {''default''}))"
proof -
  let ?m = "ctx_endpointsByTag (buildContext config spec)"
  let ?eps = "spec_endpoints spec"
  have keys: "map fst ?m = rev (remdups (rev (concat (map ep_tags ?eps))))"
    by (rule buildContext_keys)
  have dist: "distinct (map fst ?m)"
    by (simp add: keys)
  have entries: "\<forall>(t, b) \<in> set ?m. b = bucket ?m t \<and> b \<noteq> []"
  proof (intro ballI, clarify)
    fix t b assume tb: "(t, b) \<in> set ?m"
    then have b: "bucket ?m t = b"
      using dist by (rule entry_is_bucket [rotated])
    have "t \<in> set (map fst ?m)"
      using tb by force
    then obtain e where "e \<in> set ?eps" and "t \<in> set (ep_tags e)"
      by (auto simp add: keys)
    then have "e \<in> set (bucket ?m t)"
      by (simp add: buildContext_member)
    then show "b = bucket ?m t \<and> b \<noteq> []"
      using b by auto
  qed
  have counts: "\<forall>e t. count_list (bucket ?m t) e = count_list ?eps e * count_list (ep_tags e) t"
    by (simp add: buildContext_bucket count_list_buckets)
  have once: "\<forall>e. count_list ?eps e = 1 \<and> distinct (ep_tags e) \<longrightarrow>
         (\<forall>t \<in> set (ep_tags e). count_list (bucket ?m t) e = 1)
         \<and> card {t. e \<in> set (bucket ?m t)} = length (ep_tags e)"
  proof (intro allI impI)
    fix e assume h: "count_list ?eps e = 1 \<and> distinct (ep_tags e)"
    then have mem: "e \<in> set ?eps"
      using count_list_0_iff [of ?eps e] by auto
    have "{t. e \<in> set (bucket ?m t)} = set (ep_tags e)"
      using mem by (auto simp add: buildContext_member)
    then have "card {t. e \<in> set (bucket ?m t)} = length (ep_tags e)"
      using h by (simp add: distinct_card)
    moreover have "\<forall>t \<in> set (ep_tags e). count_list (bucket ?m t) e = 1"
      using h counts by (simp add: count_list_distinct)
    ultimately show "(\<forall>t \<in> set (ep_tags e). count_list (bucket ?m t) e = 1)
         \<and> card {t. e \<in> set (bucket ?m t)} = length (ep_tags e)"
      by simp
  qed
  have default: "\<forall>path method op. o_tags op = None \<longrightarrow>
         ep_tags (parseEndpoint path method op) = [''default'']
         \<and> (parseEndpoint path method op \<in> set ?eps \<longrightarrow>
              {t. parseEndpoint path method op \<in> set (bucket ?m t)} = {''default''})"
    by (auto simp add: buildContext_member) (simp_all add: parseEndpoint_def)
  have buckets: "\<forall>t. bucket ?m t
          = concat (map (\<lambda>e. replicate (count_list (ep_tags e) t) e) ?eps)"
    by (simp add: buildContext_bucket)
  have member: "\<forall>e t. e \<in> set (bucket ?m t) \<longleftrightarrow> e \<in> set ?eps \<and> t \<in> set (ep_tags e)"
    by (simp add: buildContext_member)
  show ?thesis
    by (intro conjI) (fact buckets keys entries member counts once default)+
qed

text \<open>
  The document with \<open>GET /pets\<close> tagged \<open>pets\<close> and \<open>store\<close> and \<open>GET /health\<close>
  without tags: three buckets, in the order of first use.
\<close>

theorem buildContext_buckets_witness:
  "spec_endpoints (parse taggedDocument)
     = [parseEndpoint ''/pets'' ''GET'' (emptyOperation \<lparr> o_tags := Some [''pets'', ''store''] \<rparr>),
        parseEndpoint ''/health'' ''GET'' emptyOperation]
   \<and> distinct (spec_endpoints (parse taggedDocument))
   \<and> o_tags emptyOperation = None
   \<and> map fst (ctx_endpointsByTag (buildContext exampleConfig (parse taggedDocument)))
       = [''pets'', ''store'', ''default'']
   \<and> bucket (ctx_endpointsByTag (buildContext exampleConfig (parse taggedDocument))) ''pets''
       = [parseEndpoint ''/pets'' ''GET'' (emptyOperation \<lparr> o_tags := Some [''pets'', ''store''] \<rparr>)]
   \<and> bucket (ctx_endpointsByTag (buildContext exampleConfig (parse taggedDocument))) ''store''
       = [parseEndpoint ''/pets'' ''GET'' (emptyOperation \<lparr> o_tags := Some [''pets'', ''store''] \<rparr>)]
   \<and> bucket (ctx_endpointsByTag (buildContext exampleConfig (parse taggedDocument))) ''default''
       = [parseEndpoint ''/health'' ''GET'' emptyOperation]
   \<and> card {t. parseEndpoint ''/pets'' ''GET'' (emptyOperation \<lparr> o_tags := Some [''pets'', ''store''] \<rparr>)
                 \<in> set (bucket (ctx_endpointsByTag
                                  (buildContext exampleConfig (parse taggedDocument))) t)} = 2
   \<and> {t. parseEndpoint ''/health'' ''GET'' emptyOperation
            \<in> set (bucket (ctx_endpointsByTag
                             (buildContext exampleConfig (parse taggedDocument))) t)}
       = {''default''}"
proof -
  let ?pets = "parseEndpoint ''/pets'' ''GET'' (emptyOperation \<lparr> o_tags := Some [''pets'', ''store''] \<rparr>)"
  let ?health = "parseEndpoint ''/health'' ''GET'' emptyOperation"
  let ?m = "ctx_endpointsByTag (buildContext exampleConfig (parse taggedDocument))"
  note rules = buildContext_buckets [of exampleConfig "parse taggedDocument"]
  have eps: "spec_endpoints (parse taggedDocument) = [?pets, ?health]"
    by (simp add: parse_def parseEndpoints_def taggedDocument_def emptyDocument_def methods_def
        toUpperCase_def toUpperCaseChar_def lowerLetters_def upperLetters_def)
  have tags: "ep_tags ?pets = [''pets'', ''store'']" "ep_tags ?health = [''default'']"
    by (simp_all add: parseEndpoint_def emptyOperation_def)
  have ne: "?pets \<noteq> ?health"
    using tags by (metis list.inject list.distinct(1))
  have absent: "o_tags emptyOperation = None"
    by (simp add: emptyOperation_def)
  have keys: "map fst ?m = [''pets'', ''store'', ''default'']"
    using rules by (simp add: eps tags)
  have b: "bucket ?m ''pets'' = [?pets]" "bucket ?m ''store'' = [?pets]"
    "bucket ?m ''default'' = [?health]"
    using rules by (simp_all add: eps tags)
  have once: "count_list (spec_endpoints (parse taggedDocument)) ?pets = 1
              \<and> distinct (ep_tags ?pets)"
    using ne by (simp add: eps tags)
  have "card {t. ?pets \<in> set (bucket ?m t)} = length (ep_tags ?pets)"
    using rules once by blast
  then have n: "card {t. ?pets \<in> set (bucket ?m t)} = 2"
    by (simp add: tags)
  have "?health \<in> set (spec_endpoints (parse taggedDocument))"
    by (simp add: eps)
  then have d: "{t. ?health \<in> set (bucket ?m t)} = {''default''}"
    using rules absent by blast
  show ?thesis
    using eps ne absent keys b n d by simp
qed

text \<open>
  The claim as stated fails on a repeated tag: \<open>GET /x\<close> with
  \<open>tags: ["a", "a"]\<close> has two tags and is twice in the one bucket \<open>a\<close>.
\<close>

theorem buildContext_repeated_tag_counterexample:
  "spec_endpoints (parse repeatedTagDocument) = [repeatedTagEndpoint]
   \<and> ep_tags repeatedTagEndpoint = [''a'', ''a'']
   \<and> ctx_endpointsByTag (buildContext exampleConfig (parse repeatedTagDocument))
       = [(''a'', [repeatedTagEndpoint, repeatedTagEndpoint])]"
  by (simp add: parse_def parseEndpoints_def repeatedTagDocument_def repeatedTagEndpoint_def
      emptyDocument_def methods_def buildContext_def toUpperCase_def toUpperCaseChar_def
      lowerLetters_def upperLetters_def)
     (simp add: parseEndpoint_def)


section \<open>Unsupported languages\<close>

lemma writtenPaths_append: "writtenPaths (xs @ ys) = writtenPaths xs @ writtenPaths ys"
  by (induction xs rule: writtenPaths.induct) auto

lemma writtenPaths_writeFile:
  "writtenPaths (writeFile g filename content) = [pathJoin (generatorOutputDir g) filename]"
  by (simp add: writeFile_def)

text \<open>The artifact set of the TypeScript generator.\<close>

lemma writtenPaths_generatorGenerate:
  "writtenPaths (generatorGenerate g ctx)
     = map (pathJoin (generatorOutputDir g))
         ((if spec_schemas (ctx_spec ctx) = [] then [] else [''types.ts''])
          @ [''index.ts'']
          @ (if includeErrorHandling (ctx_config ctx) then [''errors.ts''] else [])
          @ [''params.ts'']
          @ (if includeExamples (ctx_config ctx) then [''examples.ts''] else [])
          @ [''package.json'', ''tsconfig.json''])"
  by (simp add: generatorGenerate_def Let_def writtenPaths_append writtenPaths_writeFile
      generateSchemas_def)

text \<open>The engine hands every language to the TypeScript generator.\<close>

lemma getGenerator_fallback: "fst (getGenerator config) = TypeScriptGenerator config"
  by (simp add: getGenerator_def)

lemma writtenPaths_engineGenerate:
  "writtenPaths (engineGenerate config spec)
     = writtenPaths (generatorGenerate (TypeScriptGenerator config) (buildContext config spec))"
  by (simp add: engineGenerate_def getGenerator_def writtenPaths_append)

text \<open>The \<open>generate\<close> command refuses a language outside the recognized set.\<close>

lemma generateClient_refuses:
  "fs (opt_input opts) = Some content \<Longrightarrow> opt_language opts \<notin> set validLanguages \<Longrightarrow>
   generateClient fs opts = Inl InvalidLanguage"
  by (simp add: generateClient_def)

text \<open>The \<open>watch\<close> command has no such check.\<close>

lemma watchAndGenerate_has_no_language_check:
  "watchAndGenerate fs opts \<noteq> Inl InvalidLanguage"
  by (auto simp add: watchAndGenerate_def parseDocument_def OpenAPIParser_def
      split: option.splits sum.splits if_splits)

text \<open>
  C6 holds of the \<open>generate\<close> command and fails on the \<open>watch\<close> command. With
  the language \<open>rust\<close> and an input file that parses, \<open>generate\<close> stops with
  the invalid-language error; \<open>watch\<close> goes on, the engine prints its
  fallback notice, and the TypeScript generator writes its files under
  \<open>/work/out/rust\<close>.
\<close>

theorem watch_accepts_unsupported_language:
  "opt_language rustOptions \<notin> set validLanguages
   \<and> generateClient exampleFiles rustOptions = Inl InvalidLanguage
   \<and> (\<exists>effects. watchAndGenerate exampleFiles rustOptions = Inr effects
        \<and> Notice ''Note: rust not yet fully implemented, generating TypeScript client''
            \<in> set effects
        \<and> writtenPaths effects
            = [''/work/out/rust/types.ts'', ''/work/out/rust/index.ts'',
               ''/work/out/rust/errors.ts'', ''/work/out/rust/params.ts'',
               ''/work/out/rust/package.json'', ''/work/out/rust/tsconfig.json''])"
proof -
  let ?config = "configOf rustOptions True"
  let ?spec = "parse petStoreDocument"
  have lang: "opt_language rustOptions \<notin> set validLanguages"
    by (simp add: rustOptions_def validLanguages_def)
  have onDisk: "exampleFiles (opt_input rustOptions) = Some petStoreDocument"
    by (simp add: exampleFiles_def rustOptions_def)
  have refused: "generateClient exampleFiles rustOptions = Inl InvalidLanguage"
    using onDisk lang by (rule generateClient_refuses)
  have parsed: "parseDocument petStoreDocument = Inr ?spec"
    by (rule parseDocument_Inr) (simp add: petStoreDocument_def emptyDocument_def truthyStr_def)
  have run: "watchAndGenerate exampleFiles rustOptions = Inr (engineGenerate ?config ?spec)"
    by (simp add: watchAndGenerate_def onDisk parsed)
  have notice: "Notice ''Note: rust not yet fully implemented, generating TypeScript client''
                  \<in> set (engineGenerate ?config ?spec)"
    by (simp add: engineGenerate_def getGenerator_def configOf_def rustOptions_def)
  have schemas: "spec_schemas ?spec \<noteq> []"
    by (simp add: parse_def parseSchemas_def petStoreDocument_def emptyDocument_def)
  have "writtenPaths (engineGenerate ?config ?spec)
          = [''/work/out/rust/types.ts'', ''/work/out/rust/index.ts'',
             ''/work/out/rust/errors.ts'', ''/work/out/rust/params.ts'',
             ''/work/out/rust/package.json'', ''/work/out/rust/tsconfig.json'']"
    using schemas
    by (simp add: writtenPaths_engineGenerate writtenPaths_generatorGenerate buildContext_def
        configOf_def rustOptions_def pathJoin_def)
  then show ?thesis
    using lang refused run notice by simp
qed


section \<open>The retryability predicate\<close>


lemma isRetryableError_lines:
  "drop 47 errorsContent =
     [''export function isRetryableError(error: any): boolean {'',
      ''  if (error instanceof NetworkError || error instanceof TimeoutError) {'',
      ''    return true;'',
      ''  }'',
      ''  if (error instanceof ApiResponseError && error.statusCode && error.statusCode >= 500) {'',
      ''    return true;'',
      ''  }'',
      ''  return false;'',
      ''}'']"
  by (simp add: errorsContent_def)




section \<open>The counts of endpoints and schemas\<close>




section \<open>The type mapping\<close>




lemma getTypeName_email_uri:
  "getTypeName ''email'' = ''string'' \<and> getTypeName ''uri'' = ''string''
   \<and> getTypeName ''object'' = ''any''"
  by (simp add: getTypeName_def toLowerCase_def toLowerCaseChar_def lowerLetters_def
      upperLetters_def)





section \<open>Endpoints with an empty tag list\<close>

lemma formatEndpoint_context:
  "ctx_config c = ctx_config c' \<Longrightarrow> spec_baseUrl (ctx_spec c) = spec_baseUrl (ctx_spec c') \<Longrightarrow>
   formatEndpoint ep c = formatEndpoint ep c'"
  by (simp add: formatEndpoint_def generateExample_def)

lemma endpointsGrouped_context:
  assumes "ctx_config c = ctx_config c'"
    and "spec_baseUrl (ctx_spec c) = spec_baseUrl (ctx_spec c')"
    and "ctx_endpointsByTag c = ctx_endpointsByTag c'"
  shows "endpointsGrouped c = endpointsGrouped c'"
  using assms formatEndpoint_context [OF assms(1) assms(2)]
  by (simp add: endpointsGrouped_def)

lemma methods_of_groups:
  "map tg_endpoints (endpointsGrouped c)
     = map (\<lambda>(t, b). map (\<lambda>ep. formatEndpoint ep c) b) (ctx_endpointsByTag c)"
  by (simp add: endpointsGrouped_def split_def)

text \<open>
  Two contexts that differ only in the endpoint list of their spec, not in
  their buckets: the generator writes the same files.
\<close>

lemma same_buckets_same_output:
  assumes spec: "ctx_spec c' = (ctx_spec c) \<lparr> spec_endpoints := eps \<rparr>"
    and config: "ctx_config c' = ctx_config c"
    and buckets: "ctx_endpointsByTag c' = ctx_endpointsByTag c"
  shows "generatorGenerate g c' = generatorGenerate g c"
proof -
  have url: "spec_baseUrl (ctx_spec c') = spec_baseUrl (ctx_spec c)"
    by (simp add: spec)
  have example: "generateExample ep c' = generateExample ep c" for ep
    by (simp add: generateExample_def config url)
  have client: "generateClientCode c' = generateClientCode c"
    using endpointsGrouped_context [OF config url buckets]
    by (simp add: generateClientCode_def Let_def config) (simp add: spec)
  have params: "generateTypesFile c' = generateTypesFile c"
    by (simp add: generateTypesFile_def Let_def buckets) (simp add: spec)
  have examples: "generateExamples c' = generateExamples c"
    by (simp add: generateExamples_def Let_def buckets example config) (simp add: spec)
  have schemas: "spec_schemas (ctx_spec c') = spec_schemas (ctx_spec c)"
    by (simp add: spec)
  show ?thesis
    by (simp add: generatorGenerate_def Let_def client params examples schemas config)
qed

lemma untagged_output_unchanged:
  "engineGenerate config
     (spec \<lparr> spec_endpoints := filter (\<lambda>x. ep_tags x \<noteq> []) (spec_endpoints spec) \<rparr>)
     = engineGenerate config spec"
proof -
  let ?spec' = "spec \<lparr> spec_endpoints := filter (\<lambda>x. ep_tags x \<noteq> []) (spec_endpoints spec) \<rparr>"
  have "generatorGenerate g (buildContext config ?spec')
          = generatorGenerate g (buildContext config spec)" for g
    by (rule same_buckets_same_output
          [where eps = "filter (\<lambda>x. ep_tags x \<noteq> []) (spec_endpoints spec)"])
       (simp_all add: buildContext_def groupByTag_skips_untagged)
  then show ?thesis
    by (simp add: engineGenerate_def Let_def split_def)
qed

text \<open>
  C10. An operation whose \<open>tags\<close> field is present keeps its tag list as it
  is, the empty list included; only an absent field is replaced by
  \<open>default\<close>. An endpoint with no tag is in no bucket of the context. The
  methods of the generated sub-clients are the endpoints of the buckets, so
  the client generated from a spec is the one generated from the spec without
  its untagged endpoints: such an endpoint has no method. The same holds of
  everything the engine writes.
\<close>

theorem untagged_endpoint_has_no_method:
  "(o_tags op = Some [] \<longrightarrow> ep_tags (parseEndpoint path method op) = [])
   \<and> (\<forall>ts. o_tags op = Some ts \<longrightarrow> ep_tags (parseEndpoint path method op) = ts)
   \<and> (o_tags op = None \<longrightarrow> ep_tags (parseEndpoint path method op) = [''default''])
   \<and> (ep_tags e = [] \<longrightarrow>
        (\<forall>t. e \<notin> set (bucket (ctx_endpointsByTag (buildContext config spec)) t))
        \<and> (\<forall>(t, b) \<in> set (ctx_endpointsByTag (buildContext config spec)). e \<notin> set b))
   \<and> map tg_endpoints (cd_endpointsByTag (generateClientCode (buildContext config spec)))
        = map (\<lambda>(t, b). map (\<lambda>ep. formatEndpoint ep (buildContext config spec)) b)
            (ctx_endpointsByTag (buildContext config spec))
   \<and> generateClientCode
        (buildContext config
           (spec \<lparr> spec_endpoints := filter (\<lambda>x. ep_tags x \<noteq> []) (spec_endpoints spec) \<rparr>))
        = generateClientCode (buildContext config spec)
   \<and> engineGenerate config
        (spec \<lparr> spec_endpoints := filter (\<lambda>x. ep_tags x \<noteq> []) (spec_endpoints spec) \<rparr>)
        = engineGenerate config spec"
proof (intro conjI impI allI)
  show "o_tags op = Some [] \<Longrightarrow> ep_tags (parseEndpoint path method op) = []"
    by (simp add: parseEndpoint_def)
  show "\<And>ts. o_tags op = Some ts \<Longrightarrow> ep_tags (parseEndpoint path method op) = ts"
    by (simp add: parseEndpoint_def)
  show "o_tags op = None \<Longrightarrow> ep_tags (parseEndpoint path method op) = [''default'']"
    by (simp add: parseEndpoint_def)
next
  let ?m = "ctx_endpointsByTag (buildContext config spec)"
  assume untagged: "ep_tags e = []"
  then show none: "\<And>t. e \<notin> set (bucket ?m t)"
    by (simp add: buildContext_member)
  have "distinct (map fst ?m)"
    by (simp add: buildContext_keys)
  then have "\<And>t b. (t, b) \<in> set ?m \<Longrightarrow> bucket ?m t = b"
    by (rule entry_is_bucket)
  then show "\<forall>(t, b) \<in> set ?m. e \<notin> set b"
    using none by fastforce
next
  show "map tg_endpoints (cd_endpointsByTag (generateClientCode (buildContext config spec)))
        = map (\<lambda>(t, b). map (\<lambda>ep. formatEndpoint ep (buildContext config spec)) b)
            (ctx_endpointsByTag (buildContext config spec))"
    by (simp add: generateClientCode_def Let_def methods_of_groups)
next
  let ?spec' = "spec \<lparr> spec_endpoints := filter (\<lambda>x. ep_tags x \<noteq> []) (spec_endpoints spec) \<rparr>"
  have "endpointsGrouped (buildContext config ?spec') = endpointsGrouped (buildContext config spec)"
    by (rule endpointsGrouped_context)
       (simp_all add: buildContext_def groupByTag_skips_untagged)
  then show "generateClientCode (buildContext config ?spec')
               = generateClientCode (buildContext config spec)"
    by (simp add: generateClientCode_def Let_def buildContext_def)
  show "engineGenerate config ?spec' = engineGenerate config spec"
    by (rule untagged_output_unchanged)
qed

text \<open>
  The document that declares only \<open>GET /hidden\<close> with \<open>tags: []\<close>: one endpoint
  is parsed, and the client has no sub-client at all.
\<close>

theorem untagged_endpoint_has_no_method_witness:
  "o_tags (emptyOperation \<lparr> o_tags := Some [] \<rparr>) = Some []
   \<and> spec_endpoints (parse untaggedDocument)
       = [parseEndpoint ''/hidden'' ''GET'' (emptyOperation \<lparr> o_tags := Some [] \<rparr>)]
   \<and> ep_tags (parseEndpoint ''/hidden'' ''GET'' (emptyOperation \<lparr> o_tags := Some [] \<rparr>)) = []
   \<and> ctx_endpointsByTag (buildContext exampleConfig (parse untaggedDocument)) = []
   \<and> cd_endpointsByTag (generateClientCode (buildContext exampleConfig (parse untaggedDocument)))
       = []"
proof -
  let ?op = "emptyOperation \<lparr> o_tags := Some [] \<rparr>"
  let ?e = "parseEndpoint ''/hidden'' ''GET'' ?op"
  let ?spec = "parse untaggedDocument"
  note rules = untagged_endpoint_has_no_method
    [of ?op "''/hidden''" "''GET''" ?e exampleConfig ?spec]
  have present: "o_tags ?op = Some []"
    by simp
  have eps: "spec_endpoints ?spec = [?e]"
    by (simp add: parse_def parseEndpoints_def untaggedDocument_def emptyDocument_def methods_def
        toUpperCase_def toUpperCaseChar_def lowerLetters_def upperLetters_def)
  have tags: "ep_tags ?e = []"
    using rules present by blast
  have ctx: "ctx_endpointsByTag (buildContext exampleConfig ?spec) = []"
    using tags by (simp add: buildContext_def eps)
  have "generateClientCode (buildContext exampleConfig (?spec \<lparr> spec_endpoints := [] \<rparr>))
          = generateClientCode (buildContext exampleConfig ?spec)"
    using rules tags by (simp add: eps)
  moreover have
    "cd_endpointsByTag
       (generateClientCode (buildContext exampleConfig (?spec \<lparr> spec_endpoints := [] \<rparr>))) = []"
    by (simp add: generateClientCode_def Let_def endpointsGrouped_def buildContext_def)
  ultimately have "cd_endpointsByTag (generateClientCode (buildContext exampleConfig ?spec)) = []"
    by simp
  then show ?thesis
    using present eps tags ctx by simp
qed


section \<open>Further properties\<close>

text \<open>
  Base-URL precedence. The URL of the first server entry wins; without a
  server entry a truthy \<open>host\<close> gives \<open>scheme://host\<close> followed by the base
  path, the scheme defaulting to \<open>https\<close> and the base path to nothing;
  without either the URL is the placeholder.
\<close>

theorem baseUrl_precedence:
  "(\<forall>sv svs. d_servers doc = Some (sv # svs) \<longrightarrow> getBaseUrl doc = sv_url sv)
   \<and> ((d_servers doc = None \<or> d_servers doc = Some []) \<and> truthyStr (d_host doc) \<longrightarrow>
        getBaseUrl doc
          = Some (orElse (case d_schemes doc of Some (x # xs) \<Rightarrow> Some x | _ \<Rightarrow> None) ''https''
                  @ ''://'' @ the (d_host doc) @ orElse (d_basePath doc) ''''))
   \<and> ((d_servers doc = None \<or> d_servers doc = Some []) \<and> \<not> truthyStr (d_host doc) \<longrightarrow>
        getBaseUrl doc = Some ''https://api.example.com'')"
  by (auto simp add: getBaseUrl_def Let_def)

theorem baseUrl_precedence_witness:
  "d_servers bothStylesDocument
     = Some [\<lparr> sv_url = Some ''https://api.pets.test/v2'' \<rparr>,
             \<lparr> sv_url = Some ''https://staging.pets.test'' \<rparr>]
   \<and> truthyStr (d_host bothStylesDocument)
   \<and> getBaseUrl bothStylesDocument = Some ''https://api.pets.test/v2''
   \<and> d_servers legacyDocument = None \<and> truthyStr (d_host legacyDocument)
   \<and> getBaseUrl legacyDocument = Some ''https://legacy.pets.test/v1''
   \<and> d_servers markerOnlyDocument = None \<and> \<not> truthyStr (d_host markerOnlyDocument)
   \<and> getBaseUrl markerOnlyDocument = Some ''https://api.example.com''"
proof -
  have both: "d_servers bothStylesDocument
     = Some [\<lparr> sv_url = Some ''https://api.pets.test/v2'' \<rparr>,
             \<lparr> sv_url = Some ''https://staging.pets.test'' \<rparr>]"
    "truthyStr (d_host bothStylesDocument)"
    by (simp_all add: bothStylesDocument_def emptyDocument_def truthyStr_def)
  have legacy: "d_servers legacyDocument = None" "truthyStr (d_host legacyDocument)"
    "d_schemes legacyDocument = None" "d_host legacyDocument = Some ''legacy.pets.test''"
    "d_basePath legacyDocument = Some ''/v1''"
    by (simp_all add: legacyDocument_def emptyDocument_def truthyStr_def)
  have bare: "d_servers markerOnlyDocument = None" "\<not> truthyStr (d_host markerOnlyDocument)"
    by (simp_all add: markerOnlyDocument_def emptyDocument_def truthyStr_def)
  have "getBaseUrl bothStylesDocument = Some ''https://api.pets.test/v2''"
    using baseUrl_precedence [of bothStylesDocument] both(1) by simp
  moreover have "getBaseUrl legacyDocument = Some ''https://legacy.pets.test/v1''"
    using baseUrl_precedence [of legacyDocument] legacy by (simp add: orElse_def)
  moreover have "getBaseUrl markerOnlyDocument = Some ''https://api.example.com''"
    using baseUrl_precedence [of markerOnlyDocument] bare by simp
  ultimately show ?thesis
    using both legacy(1,2) bare by simp
qed

text \<open>
  The artifact set. The TypeScript generator writes, in this order and under
  the output directory joined with the language: \<open>types.ts\<close> when the spec has
  a schema, \<open>index.ts\<close>, \<open>errors.ts\<close> when error handling is included,
  \<open>params.ts\<close>, \<open>examples.ts\<close> when examples are included, \<open>package.json\<close> and
  \<open>tsconfig.json\<close>.
\<close>

theorem artifact_set:
  "writtenPaths (generatorGenerate (TypeScriptGenerator config) (buildContext config spec))
     = map (pathJoin (pathJoin (outputDir config) (language config)))
         ((if spec_schemas spec = [] then [] else [''types.ts''])
          @ [''index.ts'']
          @ (if includeErrorHandling config then [''errors.ts''] else [])
          @ [''params.ts'']
          @ (if includeExamples config then [''examples.ts''] else [])
          @ [''package.json'', ''tsconfig.json''])"
  by (simp add: writtenPaths_generatorGenerate buildContext_def)

text \<open>
  The \<open>generate\<close> command. A missing input file is reported first; then a
  language outside \<open>typescript\<close>, \<open>python\<close>, \<open>go\<close> is refused, before the
  document is parsed and with nothing written; then a document without a
  truthy marker is refused; otherwise the engine runs, with the TypeScript
  generator whatever the language.
\<close>

theorem generate_command:
  "(fs (opt_input opts) = None \<longrightarrow> generateClient fs opts = Inl InputFileNotFound)
   \<and> (\<forall>content. fs (opt_input opts) = Some content \<longrightarrow>
        (opt_language opts \<notin> set validLanguages \<longrightarrow>
           generateClient fs opts = Inl InvalidLanguage)
        \<and> (opt_language opts \<in> set validLanguages
             \<and> \<not> truthyStr (d_openapi content) \<and> \<not> truthyStr (d_swagger content) \<longrightarrow>
           generateClient fs opts = Inl InvalidSpecification)
        \<and> (opt_language opts \<in> set validLanguages
             \<and> (truthyStr (d_openapi content) \<or> truthyStr (d_swagger content)) \<longrightarrow>
           generateClient fs opts
             = Inr (engineGenerate (configOf opts False) (parse content))
           \<and> fst (getGenerator (configOf opts False))
               = TypeScriptGenerator (configOf opts False)))"
  by (auto simp add: generateClient_def parseDocument_Inr parseDocument_Inl getGenerator_fallback)

theorem generate_command_witness:
  "exampleFiles (opt_input rustOptions) = Some petStoreDocument
   \<and> opt_language rustOptions \<notin> set validLanguages
   \<and> generateClient exampleFiles rustOptions = Inl InvalidLanguage
   \<and> opt_language typescriptOptions \<in> set validLanguages
   \<and> truthyStr (d_openapi petStoreDocument)
   \<and> writtenPaths (projr (generateClient exampleFiles typescriptOptions))
       = [''/work/out/typescript/types.ts'', ''/work/out/typescript/index.ts'',
          ''/work/out/typescript/errors.ts'', ''/work/out/typescript/params.ts'',
          ''/work/out/typescript/examples.ts'', ''/work/out/typescript/package.json'',
          ''/work/out/typescript/tsconfig.json'']"
proof -
  have onDisk: "exampleFiles (opt_input rustOptions) = Some petStoreDocument"
    "exampleFiles (opt_input typescriptOptions) = Some petStoreDocument"
    by (simp_all add: exampleFiles_def rustOptions_def typescriptOptions_def)
  have lang: "opt_language rustOptions \<notin> set validLanguages"
    "opt_language typescriptOptions \<in> set validLanguages"
    by (simp_all add: rustOptions_def typescriptOptions_def validLanguages_def)
  have marker: "truthyStr (d_openapi petStoreDocument)"
    by (simp add: petStoreDocument_def emptyDocument_def truthyStr_def)
  have refused: "generateClient exampleFiles rustOptions = Inl InvalidLanguage"
    using generate_command [of exampleFiles rustOptions] onDisk(1) lang(1) by simp
  have run: "generateClient exampleFiles typescriptOptions
               = Inr (engineGenerate (configOf typescriptOptions False) (parse petStoreDocument))"
    using generate_command [of exampleFiles typescriptOptions] onDisk(2) lang(2) marker by simp
  have schemas: "spec_schemas (parse petStoreDocument) \<noteq> []"
    by (simp add: parse_def parseSchemas_def petStoreDocument_def emptyDocument_def)
  have "writtenPaths (engineGenerate (configOf typescriptOptions False) (parse petStoreDocument))
       = [''/work/out/typescript/types.ts'', ''/work/out/typescript/index.ts'',
          ''/work/out/typescript/errors.ts'', ''/work/out/typescript/params.ts'',
          ''/work/out/typescript/examples.ts'', ''/work/out/typescript/package.json'',
          ''/work/out/typescript/tsconfig.json'']"
    using schemas
    by (simp add: writtenPaths_engineGenerate writtenPaths_generatorGenerate buildContext_def
        configOf_def typescriptOptions_def pathJoin_def)
  then show ?thesis
    using onDisk(1) lang marker refused run by simp
qed


end
